theory Spec2Isabelle
  imports Complex_Main "HOL-Library.Word" "HOL-Library.Sublist"
begin

section \<open>Data model\<close>

text \<open>
  The recipe backend keeps two MongoDB collections (users and recipes) and photo assets in
  Cloudinary. Identifiers are ObjectIds, compared in the routes through \<open>toString()\<close>;
  they are modelled by their string form.
\<close>

type_synonym objectId = string

type_synonym buffer = "8 word list"

text \<open>
  Modelled from the spec: \<open>models/User.js\<close> and \<open>models/Recipe.js\<close> are not among the
  sources. The fields are those of section 3 of the specification under the names the
  routes use (\<open>_id\<close>, \<open>public_id\<close>, \<open>url\<close>, \<open>createdBy\<close>, \<open>reviews\<close>, \<open>replies\<close>,
  \<open>favorites\<close>, \<open>profilePhoto\<close>). The schemas are taken to store the values the routes assign
  as they are, without setters or validators of their own.
\<close>

record photo =
  public_id :: string
  url :: string

text \<open>A JavaScript number: a finite value, an infinity or NaN. Finite doubles are rationals.\<close>

datatype jsnum = NaN | Fin rat | PosInf | NegInf

text \<open>
  The type parameters of reviews and recipes are the representation of a user reference:
  an \<open>objectId\<close> in a stored document, and the outcome of \<open>populate(.., "username")\<close> in a
  response (\<open>None\<close> is JavaScript's \<open>null\<close>, for a reference that resolves to no user).
\<close>

record user_ref =
  ref_id :: objectId
  ref_username :: string

record 'u reply =
  reply_id :: objectId
  reply_description :: string
  reply_user :: 'u

record 'u review =
  review_id :: objectId
  rating :: jsnum
  review_description :: string
  review_user :: 'u
  replies :: "'u reply list"

record ('c, 'u) recipe =
  recipe_id :: objectId
  title :: string
  ingredients :: "string list"
  instructions :: string
  category :: string
  cookingTime :: string
  recipe_photo :: photo
  createdBy :: 'c
  reviews :: "'u review list"

type_synonym stored_recipe = "(objectId, objectId) recipe"

record user =
  user_id :: objectId
  username :: string
  email :: string
  password :: "string option"
  profilePhoto :: "photo option"
  favorites :: "objectId list"

subsection \<open>Requests\<close>

text \<open>
  A value of a JSON request body (\<open>express.json()\<close>). Arrays and objects are left out: the
  routes read only \<open>rating\<close> and \<open>description\<close> from a JSON body.
\<close>

datatype jsvalue = Undefined | Null | Bool bool | Number jsnum | String string

record uploaded_file =
  originalname :: string
  file_buffer :: buffer

text \<open>
  What the routes read from an Express request: the \<open>Authorization\<close> header, the path
  parameters, the query string, the multipart text fields (strings when present), the JSON
  body fields and the file that multer's \<open>upload.single("photo")\<close> leaves in \<open>req.file\<close>.
  \<open>req.user\<close> is not part of an incoming request; it is passed to the handlers separately.
\<close>

record request =
  authorization :: "string option"
  params_id :: string
  params_reviewId :: string
  query_category :: "string option"
  body_title :: "string option"
  body_ingredients :: "string option"
  body_instructions :: "string option"
  body_category :: "string option"
  body_cookingTime :: "string option"
  body_rating :: jsvalue
  body_description :: jsvalue
  req_file :: "uploaded_file option"

subsection \<open>The world: both collections and the order of effects\<close>

datatype effect =
    CloudinaryDestroy string
  | CloudinaryUpload string buffer
  | RecipeCreate objectId
  | RecipeSave objectId
  | RecipeDelete objectId
  | UserSave objectId

text \<open>
  \<open>effects\<close> records, oldest first, every call to Cloudinary (whether it succeeds or is
  rejected) and every write to the database, in the order the handler issues them.
\<close>

record world =
  recipes :: "stored_recipe list"
  users :: "user list"
  effects :: "effect list"

record upload_result =
  result_public_id :: string
  secure_url :: string

text \<open>
  The collaborators outside the repository, as parameters: mongoose's
  \<open>ObjectId.isValid\<close>, \<open>jwt.verify\<close> (\<open>None\<close>: it throws; \<open>Some None\<close>: a payload
  without \<open>id\<close>), \<open>JSON.parse\<close> of the ingredients followed by the cast to a list of
  strings (\<open>Inl m\<close>: it throws an error with message \<open>m\<close>), ECMAScript's conversion of a string to a number, the
  outcomes of Cloudinary's \<open>destroy\<close> (\<open>Some m\<close>: rejected with message \<open>m\<close>) and
  \<open>upload_stream\<close> (\<open>Inl m\<close>: rejected), and the identifier the driver gives to the one
  document or subdocument a request creates.
\<close>

record externals =
  ObjectId_isValid :: "string \<Rightarrow> bool"
  jwt_verify :: "string \<Rightarrow> objectId option option"
  JSON_parse :: "string \<Rightarrow> string + string list"
  StringToNumber :: "string \<Rightarrow> jsnum"
  destroy :: "string \<Rightarrow> string option"
  upload_stream :: "string \<Rightarrow> buffer \<Rightarrow> string + upload_result"
  newObjectId :: objectId

text \<open>
  A handler that throws: the status that \<open>res.status\<close> held when the error was thrown
  (200, Express's default, if it was never set) and the message of the error.
\<close>

datatype failure = Failure nat string

datatype body =
    JsonNull
  | Message string
  | FavoriteStatus string bool
  | ProfilePhotoBody "photo option" string
  | RecipeSummary "(user_ref option, objectId) recipe" "bool option"
  | RecipeDetail "(user_ref option, user_ref option) recipe" "bool option"
  | RecipeList "((user_ref option, objectId) recipe \<times> bool option) list"

text \<open>
  In \<open>RecipeSummary\<close>, \<open>RecipeDetail\<close> and \<open>RecipeList\<close> the \<open>bool option\<close> is the
  \<open>isFavorited\<close> field of the JSON object: \<open>None\<close> when the object has no such field.
\<close>

type_synonym response = "nat \<times> body"

type_synonym outcome = "(failure + response) \<times> world"

section \<open>JavaScript values\<close>

text \<open>Truthiness of a multipart text field (\<open>undefined\<close> or a string), and \<open>!x\<close> on such
  a field and on a JSON value.\<close>

fun truthy_field :: "string option \<Rightarrow> bool" where
  "truthy_field None = False"
| "truthy_field (Some s) = (s \<noteq> [])"

fun falsy_field :: "string option \<Rightarrow> bool" where
  "falsy_field None = True"
| "falsy_field (Some s) = (s = [])"

fun field_value :: "string option \<Rightarrow> string" where
  "field_value None = []"
| "field_value (Some s) = s"

fun falsy :: "jsvalue \<Rightarrow> bool" where
  "falsy Undefined = True"
| "falsy Null = True"
| "falsy (Bool b) = (\<not> b)"
| "falsy (Number n) = (n = NaN \<or> n = Fin 0)"
| "falsy (String s) = (s = [])"

text \<open>\<open>Number(v)\<close>, which is also the conversion that \<open><\<close> and \<open>>\<close> apply to \<open>v\<close>
  when the other operand is a number.\<close>

fun ToNumber :: "(string \<Rightarrow> jsnum) \<Rightarrow> jsvalue \<Rightarrow> jsnum" where
  "ToNumber s2n Undefined = NaN"
| "ToNumber s2n Null = Fin 0"
| "ToNumber s2n (Bool b) = (if b then Fin 1 else Fin 0)"
| "ToNumber s2n (Number n) = n"
| "ToNumber s2n (String s) = s2n s"

text \<open>\<open>a < b\<close> on numbers: false as soon as one side is NaN.\<close>

fun js_lt :: "jsnum \<Rightarrow> jsnum \<Rightarrow> bool" where
  "js_lt NaN b = False"
| "js_lt a NaN = False"
| "js_lt (Fin a) (Fin b) = (a < b)"
| "js_lt (Fin a) PosInf = True"
| "js_lt (Fin a) NegInf = False"
| "js_lt PosInf b = False"
| "js_lt NegInf (Fin b) = True"
| "js_lt NegInf PosInf = True"
| "js_lt NegInf NegInf = False"

text \<open>
  \<open>String.prototype.trim\<close> strips white space and line terminators from both ends. A
  \<open>char\<close> is one code unit below 256; of those, trim strips TAB, LF, VT, FF, CR, SP and
  NBSP.
\<close>

definition isWhiteSpace :: "char \<Rightarrow> bool" where
  "isWhiteSpace c \<longleftrightarrow>
     c \<in> {CHR 0x09, CHR 0x0A, CHR 0x0B, CHR 0x0C, CHR 0x0D, CHR 0x20, CHR 0xA0}"

definition trim :: "string \<Rightarrow> string" where
  "trim s = rev (dropWhile isWhiteSpace (rev (dropWhile isWhiteSpace s)))"

definition startsWith :: "string \<Rightarrow> string \<Rightarrow> bool" where
  "startsWith s p \<longleftrightarrow> take (length p) s = p"

text \<open>\<open>s.split(c)\<close> for a one-character separator: always at least one piece.\<close>

fun split :: "char \<Rightarrow> string \<Rightarrow> string list" where
  "split c [] = [[]]"
| "split c (x # xs) =
     (if x = c then [] # split c xs
      else (case split c xs of [] \<Rightarrow> [[x]] | p # ps \<Rightarrow> (x # p) # ps))"

text \<open>\<open>xs[i]\<close>: \<open>undefined\<close> out of range.\<close>

definition at_index :: "'a list \<Rightarrow> nat \<Rightarrow> 'a option" where
  "at_index xs i = (if i < length xs then Some (xs ! i) else None)"

section \<open>The collections\<close>

definition User_findById :: "world \<Rightarrow> objectId \<Rightarrow> user option" where
  "User_findById w i = find (\<lambda>u. user_id u = i) (users w)"

definition Recipe_findById :: "world \<Rightarrow> objectId \<Rightarrow> stored_recipe option" where
  "Recipe_findById w i = find (\<lambda>r. recipe_id r = i) (recipes w)"

text \<open>\<open>Recipe.create(doc)\<close>, \<open>recipe.save()\<close>, \<open>recipe.deleteOne()\<close> and \<open>user.save()\<close>.
  A save overwrites the whole stored document that has the identifier.\<close>

definition Recipe_create :: "stored_recipe \<Rightarrow> world \<Rightarrow> world" where
  "Recipe_create r w =
     w\<lparr>recipes := recipes w @ [r], effects := effects w @ [RecipeCreate (recipe_id r)]\<rparr>"

definition Recipe_save :: "stored_recipe \<Rightarrow> world \<Rightarrow> world" where
  "Recipe_save r w =
     w\<lparr>recipes := map (\<lambda>x. if recipe_id x = recipe_id r then r else x) (recipes w),
       effects := effects w @ [RecipeSave (recipe_id r)]\<rparr>"

definition Recipe_deleteOne :: "stored_recipe \<Rightarrow> world \<Rightarrow> world" where
  "Recipe_deleteOne r w =
     w\<lparr>recipes := filter (\<lambda>x. recipe_id x \<noteq> recipe_id r) (recipes w),
       effects := effects w @ [RecipeDelete (recipe_id r)]\<rparr>"

definition User_save :: "user \<Rightarrow> world \<Rightarrow> world" where
  "User_save u w =
     w\<lparr>users := map (\<lambda>x. if user_id x = user_id u then u else x) (users w),
       effects := effects w @ [UserSave (user_id u)]\<rparr>"

definition select_minus_password :: "user \<Rightarrow> user" where
  "select_minus_password u = u\<lparr>password := None\<rparr>"

text \<open>\<open>User.findByIdAndUpdate(id, {profilePhoto: p}, {new: true, select: "-password"})\<close>:
  \<open>null\<close>, and nothing written, when no user has the identifier.\<close>

definition User_findByIdAndUpdate_profilePhoto ::
  "objectId \<Rightarrow> photo \<Rightarrow> world \<Rightarrow> user option \<times> world" where
  "User_findByIdAndUpdate_profilePhoto i p w =
     (case User_findById w i of
        None \<Rightarrow> (None, w)
      | Some u \<Rightarrow>
          (Some (select_minus_password (u\<lparr>profilePhoto := Some p\<rparr>)),
           User_save (u\<lparr>profilePhoto := Some p\<rparr>) w))"

text \<open>\<open>populate(path, "username")\<close> replaces a user reference by \<open>{_id, username}\<close>.\<close>

definition populate_user :: "world \<Rightarrow> objectId \<Rightarrow> user_ref option" where
  "populate_user w i =
     map_option (\<lambda>u. \<lparr>ref_id = user_id u, ref_username = username u\<rparr>) (User_findById w i)"

definition populate_createdBy ::
  "world \<Rightarrow> stored_recipe \<Rightarrow> (user_ref option, objectId) recipe" where
  "populate_createdBy w r =
     \<lparr>recipe_id = recipe_id r, title = title r, ingredients = ingredients r,
      instructions = instructions r, category = category r, cookingTime = cookingTime r,
      recipe_photo = recipe_photo r, createdBy = populate_user w (createdBy r),
      reviews = reviews r\<rparr>"

definition populate_reply :: "world \<Rightarrow> objectId reply \<Rightarrow> user_ref option reply" where
  "populate_reply w rp =
     \<lparr>reply_id = reply_id rp, reply_description = reply_description rp,
      reply_user = populate_user w (reply_user rp)\<rparr>"

definition populate_review :: "world \<Rightarrow> objectId review \<Rightarrow> user_ref option review" where
  "populate_review w rv =
     \<lparr>review_id = review_id rv, rating = rating rv,
      review_description = review_description rv,
      review_user = populate_user w (review_user rv),
      replies = map (populate_reply w) (replies rv)\<rparr>"

definition populate_all ::
  "world \<Rightarrow> stored_recipe \<Rightarrow> (user_ref option, user_ref option) recipe" where
  "populate_all w r =
     \<lparr>recipe_id = recipe_id r, title = title r, ingredients = ingredients r,
      instructions = instructions r, category = category r, cookingTime = cookingTime r,
      recipe_photo = recipe_photo r, createdBy = populate_user w (createdBy r),
      reviews = map (populate_review w) (reviews r)\<rparr>"

section \<open>Cloudinary\<close>

definition cloudinary_destroy :: "externals \<Rightarrow> string \<Rightarrow> world \<Rightarrow> string option \<times> world" where
  "cloudinary_destroy ext p w =
     (destroy ext p, w\<lparr>effects := effects w @ [CloudinaryDestroy p]\<rparr>)"

definition cloudinary_upload ::
  "externals \<Rightarrow> string \<Rightarrow> buffer \<Rightarrow> world \<Rightarrow> (string + upload_result) \<times> world" where
  "cloudinary_upload ext folder buf w =
     (upload_stream ext folder buf, w\<lparr>effects := effects w @ [CloudinaryUpload folder buf]\<rparr>)"

section \<open>middleware/auth.js\<close>

text \<open>
  \<open>protect\<close>: every error raised inside the \<open>try\<close> block (a missing token after
  \<open>Bearer\<close>, a token that \<open>jwt.verify\<close> rejects, a payload without \<open>id\<close>, no such user)
  is caught and thrown again as 401 "Not authorized, token failed". On success the user,
  without the password, becomes \<open>req.user\<close>.
\<close>

definition protect :: "externals \<Rightarrow> world \<Rightarrow> request \<Rightarrow> failure + user" where
  "protect ext w req =
     (case authorization req of
        None \<Rightarrow> Inl (Failure 401 ''Not authorized, no token'')
      | Some h \<Rightarrow>
          if h \<noteq> [] \<and> startsWith h ''Bearer'' then
            (case at_index (split CHR '' '' h) 1 of
               None \<Rightarrow> Inl (Failure 401 ''Not authorized, token failed'')
             | Some token \<Rightarrow>
                 (case jwt_verify ext token of
                    None \<Rightarrow> Inl (Failure 401 ''Not authorized, token failed'')
                  | Some None \<Rightarrow> Inl (Failure 401 ''Not authorized, token failed'')
                  | Some (Some i) \<Rightarrow>
                      if i = [] then Inl (Failure 401 ''Not authorized, token failed'')
                      else
                        (case User_findById w i of
                           None \<Rightarrow> Inl (Failure 401 ''Not authorized, token failed'')
                         | Some u \<Rightarrow> Inr (select_minus_password u))))
          else Inl (Failure 401 ''Not authorized, no token''))"

text \<open>A route registered with \<open>protect\<close> in front of its handler.\<close>

definition protected ::
  "externals \<Rightarrow> (user \<Rightarrow> request \<Rightarrow> world \<Rightarrow> outcome) \<Rightarrow> request \<Rightarrow> world \<Rightarrow> outcome" where
  "protected ext handler req w =
     (case protect ext w req of
        Inl err \<Rightarrow> (Inl err, w)
      | Inr u \<Rightarrow> handler u req w)"

section \<open>server.js\<close>

text \<open>The application's error middleware answers every thrown error the same way.\<close>

definition errorHandler :: "failure \<Rightarrow> response" where
  "errorHandler err = (500, Message ''Server error'')"

section \<open>routes/recipes.js: the handlers\<close>

text \<open>
  Each handler takes \<open>req.user\<close> (set by \<open>protect\<close> where the route has it), the request
  and the world, and returns the response or the thrown error together with the world it
  leaves behind.
\<close>

subsection \<open>PUT /users/profile/photo\<close>

text \<open>Everything after the check of \<open>req.file\<close> runs inside one \<open>try\<close>, whose \<open>catch\<close>
  throws 500 "Failed to upload photo to Cloudinary".\<close>

definition updateProfilePhoto :: "externals \<Rightarrow> user \<Rightarrow> request \<Rightarrow> world \<Rightarrow> outcome" where
  "updateProfilePhoto ext req_user req w =
     (case req_file req of
        None \<Rightarrow> (Inl (Failure 400 ''No file uploaded''), w)
      | Some f \<Rightarrow>
          (case cloudinary_upload ext ''recipe-app/profiles'' (file_buffer f) w of
             (Inl m, w1) \<Rightarrow> (Inl (Failure 500 ''Failed to upload photo to Cloudinary''), w1)
           | (Inr result, w1) \<Rightarrow>
               (case (case profilePhoto req_user of
                        None \<Rightarrow> (None, w1)
                      | Some old \<Rightarrow>
                          if public_id old \<noteq> [] then cloudinary_destroy ext (public_id old) w1
                          else (None, w1)) of
                  (Some m, w2) \<Rightarrow>
                    (Inl (Failure 500 ''Failed to upload photo to Cloudinary''), w2)
                | (None, w2) \<Rightarrow>
                    (case User_findByIdAndUpdate_profilePhoto (user_id req_user)
                            \<lparr>public_id = result_public_id result, url = secure_url result\<rparr> w2 of
                       (None, w3) \<Rightarrow>
                         (Inl (Failure 500 ''Failed to upload photo to Cloudinary''), w3)
                     | (Some updatedUser, w3) \<Rightarrow>
                         (Inr (200, ProfilePhotoBody (profilePhoto updatedUser)
                                      ''Profile photo updated successfully''), w3)))))"

subsection \<open>POST /\<close>

definition createRecipe :: "externals \<Rightarrow> user \<Rightarrow> request \<Rightarrow> world \<Rightarrow> outcome" where
  "createRecipe ext req_user req w =
     (case req_file req of
        None \<Rightarrow> (Inl (Failure 400 ''Please fill all fields and upload a photo''), w)
      | Some f \<Rightarrow>
          if falsy_field (body_title req) \<or> falsy_field (body_ingredients req) \<or>
             falsy_field (body_instructions req) \<or> falsy_field (body_category req) \<or>
             falsy_field (body_cookingTime req)
          then (Inl (Failure 400 ''Please fill all fields and upload a photo''), w)
          else
            (case cloudinary_upload ext ''recipe-app/recipes'' (file_buffer f) w of
               (Inl m, w1) \<Rightarrow> (Inl (Failure 500 ''Failed to create recipe''), w1)
             | (Inr result, w1) \<Rightarrow>
                 (case JSON_parse ext (field_value (body_ingredients req)) of
                    Inl m \<Rightarrow> (Inl (Failure 500 ''Failed to create recipe''), w1)
                  | Inr parsed \<Rightarrow>
                      (let recipe =
                             \<lparr>recipe_id = newObjectId ext,
                              title = field_value (body_title req),
                              ingredients = parsed,
                              instructions = field_value (body_instructions req),
                              category = field_value (body_category req),
                              cookingTime = field_value (body_cookingTime req),
                              recipe_photo = \<lparr>public_id = result_public_id result,
                                              url = secure_url result\<rparr>,
                              createdBy = user_id req_user,
                              reviews = []\<rparr>;
                           w2 = Recipe_create recipe w1
                       in (case Recipe_findById w2 (recipe_id recipe) of
                             None \<Rightarrow> (Inr (201, JsonNull), w2)
                           | Some r \<Rightarrow>
                               (Inr (201, RecipeSummary (populate_createdBy w2 r) None), w2))))))"

subsection \<open>GET / and GET /:id\<close>

definition getRecipes :: "user option \<Rightarrow> request \<Rightarrow> world \<Rightarrow> outcome" where
  "getRecipes req_user req w =
     (let found = (if truthy_field (query_category req)
                   then filter (\<lambda>r. category r = field_value (query_category req)) (recipes w)
                   else recipes w);
          populated = map (populate_createdBy w) found
      in (case req_user of
            Some ru \<Rightarrow>
              (case User_findById w (user_id ru) of
                 None \<Rightarrow> (Inl (Failure 404 ''User not found''), w)
               | Some user \<Rightarrow>
                   (Inr (200, RecipeList
                           (map (\<lambda>recipe. (recipe, Some (recipe_id recipe \<in> set (favorites user))))
                              populated)), w))
          | None \<Rightarrow> (Inr (200, RecipeList (map (\<lambda>recipe. (recipe, None)) populated)), w)))"

definition getRecipe :: "externals \<Rightarrow> user option \<Rightarrow> request \<Rightarrow> world \<Rightarrow> outcome" where
  "getRecipe ext req_user req w =
     (if \<not> ObjectId_isValid ext (params_id req)
      then (Inl (Failure 400 ''Invalid recipe ID''), w)
      else
        (case Recipe_findById w (params_id req) of
           None \<Rightarrow> (Inl (Failure 404 ''Recipe not found''), w)
         | Some recipe \<Rightarrow>
             (case req_user of
                Some ru \<Rightarrow>
                  (case User_findById w (user_id ru) of
                     None \<Rightarrow> (Inl (Failure 404 ''User not found''), w)
                   | Some user \<Rightarrow>
                       (Inr (200, RecipeDetail (populate_all w recipe)
                                    (Some (list_ex (\<lambda>favId. favId = recipe_id recipe)
                                             (favorites user)))), w))
              | None \<Rightarrow> (Inr (200, RecipeDetail (populate_all w recipe) None), w))))"

subsection \<open>PUT /:id\<close>

text \<open>
  The block under \<open>if (req.file)\<close>: destroy the old asset when the recipe has a
  \<open>public_id\<close>, upload the new bytes, assign the new handle to the loaded document. The
  two awaited Cloudinary calls stand outside any \<open>try\<close>: a rejection leaves the handler
  with the status still at its default.
\<close>

definition replacePhoto ::
  "externals \<Rightarrow> uploaded_file option \<Rightarrow> stored_recipe \<Rightarrow> world
     \<Rightarrow> (failure + stored_recipe) \<times> world" where
  "replacePhoto ext file recipe w =
     (case file of
        None \<Rightarrow> (Inr recipe, w)
      | Some f \<Rightarrow>
          (case (if public_id (recipe_photo recipe) \<noteq> []
                 then cloudinary_destroy ext (public_id (recipe_photo recipe)) w
                 else (None, w)) of
             (Some m, w1) \<Rightarrow> (Inl (Failure 200 m), w1)
           | (None, w1) \<Rightarrow>
               (case cloudinary_upload ext ''recipe-app/recipes'' (file_buffer f) w1 of
                  (Inl m, w2) \<Rightarrow> (Inl (Failure 200 m), w2)
                | (Inr result, w2) \<Rightarrow>
                    (Inr (recipe\<lparr>recipe_photo := \<lparr>public_id = result_public_id result,
                                                  url = secure_url result\<rparr>\<rparr>), w2))))"

text \<open>The five assignments \<open>recipe.x = x || recipe.x\<close>; \<open>JSON.parse\<close> may throw.\<close>

definition assignFields :: "externals \<Rightarrow> request \<Rightarrow> stored_recipe \<Rightarrow> failure + stored_recipe" where
  "assignFields ext req recipe =
     (case (if truthy_field (body_ingredients req)
            then JSON_parse ext (field_value (body_ingredients req))
            else Inr (ingredients recipe)) of
        Inl m \<Rightarrow> Inl (Failure 200 m)
      | Inr ingredients' \<Rightarrow>
          Inr (recipe
                 \<lparr>title := (if truthy_field (body_title req)
                            then field_value (body_title req) else title recipe),
                  ingredients := ingredients',
                  instructions := (if truthy_field (body_instructions req)
                                   then field_value (body_instructions req)
                                   else instructions recipe),
                  category := (if truthy_field (body_category req)
                               then field_value (body_category req) else category recipe),
                  cookingTime := (if truthy_field (body_cookingTime req)
                                  then field_value (body_cookingTime req)
                                  else cookingTime recipe)\<rparr>))"

definition updateRecipe :: "externals \<Rightarrow> user \<Rightarrow> request \<Rightarrow> world \<Rightarrow> outcome" where
  "updateRecipe ext req_user req w =
     (if \<not> ObjectId_isValid ext (params_id req)
      then (Inl (Failure 400 ''Invalid recipe ID''), w)
      else
        (case Recipe_findById w (params_id req) of
           None \<Rightarrow> (Inl (Failure 404 ''Recipe not found''), w)
         | Some recipe \<Rightarrow>
             if createdBy recipe \<noteq> user_id req_user
             then (Inl (Failure 401 ''Not authorized''), w)
             else
               (case replacePhoto ext (req_file req) recipe w of
                  (Inl err, w1) \<Rightarrow> (Inl err, w1)
                | (Inr recipe1, w1) \<Rightarrow>
                    (case assignFields ext req recipe1 of
                       Inl err \<Rightarrow> (Inl err, w1)
                     | Inr recipe2 \<Rightarrow>
                         (let w2 = Recipe_save recipe2 w1
                          in (case Recipe_findById w2 (recipe_id recipe2) of
                                None \<Rightarrow> (Inr (200, JsonNull), w2)
                              | Some r \<Rightarrow>
                                  (Inr (200, RecipeSummary (populate_createdBy w2 r) None),
                                   w2)))))))"

subsection \<open>DELETE /:id\<close>

definition deleteRecipe :: "externals \<Rightarrow> user \<Rightarrow> request \<Rightarrow> world \<Rightarrow> outcome" where
  "deleteRecipe ext req_user req w =
     (if \<not> ObjectId_isValid ext (params_id req)
      then (Inl (Failure 400 ''Invalid recipe ID''), w)
      else
        (case Recipe_findById w (params_id req) of
           None \<Rightarrow> (Inl (Failure 404 ''Recipe not found''), w)
         | Some recipe \<Rightarrow>
             if createdBy recipe \<noteq> user_id req_user
             then (Inl (Failure 401 ''Not authorized''), w)
             else
               (case (if public_id (recipe_photo recipe) \<noteq> []
                      then cloudinary_destroy ext (public_id (recipe_photo recipe)) w
                      else (None, w)) of
                  (Some m, w1) \<Rightarrow> (Inl (Failure 200 m), w1)
                | (None, w1) \<Rightarrow>
                    (Inr (200, Message ''Recipe deleted''), Recipe_deleteOne recipe w1))))"

subsection \<open>POST /:id/reviews\<close>

text \<open>
  The checks run in the order of the source: identifier, recipe, rating, description,
  earlier review by the same user. \<open>description.trim\<close> exists only on a string: a
  description of another type that is not falsy raises a TypeError, outside any \<open>try\<close>.
\<close>

definition addReview :: "externals \<Rightarrow> user \<Rightarrow> request \<Rightarrow> world \<Rightarrow> outcome" where
  "addReview ext req_user req w =
     (if \<not> ObjectId_isValid ext (params_id req)
      then (Inl (Failure 400 ''Invalid recipe ID''), w)
      else
        (case Recipe_findById w (params_id req) of
           None \<Rightarrow> (Inl (Failure 404 ''Recipe not found''), w)
         | Some recipe \<Rightarrow>
             if falsy (body_rating req) \<or>
                js_lt (ToNumber (StringToNumber ext) (body_rating req)) (Fin 1) \<or>
                js_lt (Fin 10) (ToNumber (StringToNumber ext) (body_rating req))
             then (Inl (Failure 400 ''Rating must be between 1 and 10''), w)
             else if falsy (body_description req)
             then (Inl (Failure 400 ''Description is required''), w)
             else
               (case body_description req of
                  String description \<Rightarrow>
                    if trim description = []
                    then (Inl (Failure 400 ''Description is required''), w)
                    else if list_ex (\<lambda>review. review_user review = user_id req_user)
                              (reviews recipe)
                    then (Inl (Failure 400 ''You have already reviewed this recipe''), w)
                    else
                      (let review =
                             \<lparr>review_id = newObjectId ext,
                              rating = ToNumber (StringToNumber ext) (body_rating req),
                              review_description = description,
                              review_user = user_id req_user,
                              replies = []\<rparr>;
                           w1 = Recipe_save (recipe\<lparr>reviews := reviews recipe @ [review]\<rparr>) w
                       in (case Recipe_findById w1 (params_id req) of
                             None \<Rightarrow> (Inr (201, JsonNull), w1)
                           | Some updatedRecipe \<Rightarrow>
                               (Inr (201, RecipeDetail (populate_all w1 updatedRecipe) None),
                                w1)))
                | _ \<Rightarrow> (Inl (Failure 200 ''description.trim is not a function''), w))))"

subsection \<open>POST /:id/reviews/:reviewId/replies\<close>

text \<open>\<open>recipe.reviews.id(reviewId)\<close> is the first review with the identifier;
  \<open>review.replies.push(reply)\<close> appends to that review inside the loaded recipe.\<close>

definition reviews_id :: "'u review list \<Rightarrow> objectId \<Rightarrow> 'u review option" where
  "reviews_id rvs i = find (\<lambda>rv. review_id rv = i) rvs"

fun replies_push :: "objectId \<Rightarrow> 'u reply \<Rightarrow> 'u review list \<Rightarrow> 'u review list" where
  "replies_push i rp [] = []"
| "replies_push i rp (rv # rvs) =
     (if review_id rv = i then rv\<lparr>replies := replies rv @ [rp]\<rparr> # rvs
      else rv # replies_push i rp rvs)"

definition addReply :: "externals \<Rightarrow> user \<Rightarrow> request \<Rightarrow> world \<Rightarrow> outcome" where
  "addReply ext req_user req w =
     (if \<not> ObjectId_isValid ext (params_id req)
      then (Inl (Failure 400 ''Invalid recipe ID''), w)
      else if \<not> ObjectId_isValid ext (params_reviewId req)
      then (Inl (Failure 400 ''Invalid review ID''), w)
      else
        (case Recipe_findById w (params_id req) of
           None \<Rightarrow> (Inl (Failure 404 ''Recipe not found''), w)
         | Some recipe \<Rightarrow>
             (case reviews_id (reviews recipe) (params_reviewId req) of
                None \<Rightarrow> (Inl (Failure 404 ''Review not found''), w)
              | Some review \<Rightarrow>
                  if falsy (body_description req)
                  then (Inl (Failure 400 ''Reply description is required''), w)
                  else
                    (case body_description req of
                       String description \<Rightarrow>
                         if trim description = []
                         then (Inl (Failure 400 ''Reply description is required''), w)
                         else
                           (let reply =
                                  \<lparr>reply_id = newObjectId ext,
                                   reply_description = description,
                                   reply_user = user_id req_user\<rparr>;
                                w1 = Recipe_save
                                       (recipe\<lparr>reviews :=
                                          replies_push (params_reviewId req) reply
                                            (reviews recipe)\<rparr>) w
                            in (case Recipe_findById w1 (params_id req) of
                                  None \<Rightarrow> (Inr (201, JsonNull), w1)
                                | Some updatedRecipe \<Rightarrow>
                                    (Inr (201, RecipeDetail (populate_all w1 updatedRecipe) None),
                                     w1)))
                     | _ \<Rightarrow> (Inl (Failure 200 ''description.trim is not a function''), w)))))"

subsection \<open>POST /:id/favorite and DELETE /:id/favorite\<close>

text \<open>\<open>user.favorites\<close> is a Mongoose array of ObjectIds, whose \<open>includes\<close> compares
  identifiers by value.\<close>

definition addFavorite :: "externals \<Rightarrow> user \<Rightarrow> request \<Rightarrow> world \<Rightarrow> outcome" where
  "addFavorite ext req_user req w =
     (if \<not> ObjectId_isValid ext (params_id req)
      then (Inl (Failure 400 ''Invalid recipe ID''), w)
      else
        (case Recipe_findById w (params_id req) of
           None \<Rightarrow> (Inl (Failure 404 ''Recipe not found''), w)
         | Some recipe \<Rightarrow>
             (case User_findById w (user_id req_user) of
                None \<Rightarrow> (Inl (Failure 404 ''User not found''), w)
              | Some user \<Rightarrow>
                  if recipe_id recipe \<in> set (favorites user)
                  then (Inl (Failure 400 ''Recipe already in favorites''), w)
                  else
                    (Inr (200, FavoriteStatus ''Recipe added to favorites'' True),
                     User_save (user\<lparr>favorites := favorites user @ [recipe_id recipe]\<rparr>) w))))"

definition removeFavorite :: "externals \<Rightarrow> user \<Rightarrow> request \<Rightarrow> world \<Rightarrow> outcome" where
  "removeFavorite ext req_user req w =
     (if \<not> ObjectId_isValid ext (params_id req)
      then (Inl (Failure 400 ''Invalid recipe ID''), w)
      else
        (case Recipe_findById w (params_id req) of
           None \<Rightarrow> (Inl (Failure 404 ''Recipe not found''), w)
         | Some recipe \<Rightarrow>
             (case User_findById w (user_id req_user) of
                None \<Rightarrow> (Inl (Failure 404 ''User not found''), w)
              | Some user \<Rightarrow>
                  if recipe_id recipe \<notin> set (favorites user)
                  then (Inl (Failure 400 ''Recipe not in favorites''), w)
                  else
                    (Inr (200, FavoriteStatus ''Recipe removed from favorites'' False),
                     User_save
                       (user\<lparr>favorites :=
                          filter (\<lambda>favId. favId \<noteq> recipe_id recipe) (favorites user)\<rparr>) w))))"

section \<open>routes/recipes.js: the routes as registered\<close>

text \<open>
  \<open>GET /\<close> and \<open>GET /:id\<close> are registered with their handler alone: no middleware in
  front of them (nor \<open>cors()\<close> or \<open>express.json()\<close> in \<open>server.js\<close>) assigns
  \<open>req.user\<close>, so the handler finds it \<open>undefined\<close> whatever the request carries. All other
  routes below have \<open>protect\<close> first. On the three multipart routes multer's
  \<open>upload.single("photo")\<close> stands between \<open>protect\<close> and the handler; the request
  record holds what it leaves behind (the text fields and \<open>req.file\<close>), and its limit of
  5 MB on the file is not modelled.
\<close>

definition PUT_users_profile_photo :: "externals \<Rightarrow> request \<Rightarrow> world \<Rightarrow> outcome" where
  "PUT_users_profile_photo ext = protected ext (updateProfilePhoto ext)"

definition POST_recipes :: "externals \<Rightarrow> request \<Rightarrow> world \<Rightarrow> outcome" where
  "POST_recipes ext = protected ext (createRecipe ext)"

definition GET_recipes :: "externals \<Rightarrow> request \<Rightarrow> world \<Rightarrow> outcome" where
  "GET_recipes ext req w = getRecipes None req w"

definition GET_recipe :: "externals \<Rightarrow> request \<Rightarrow> world \<Rightarrow> outcome" where
  "GET_recipe ext req w = getRecipe ext None req w"

definition PUT_recipe :: "externals \<Rightarrow> request \<Rightarrow> world \<Rightarrow> outcome" where
  "PUT_recipe ext = protected ext (updateRecipe ext)"

definition DELETE_recipe :: "externals \<Rightarrow> request \<Rightarrow> world \<Rightarrow> outcome" where
  "DELETE_recipe ext = protected ext (deleteRecipe ext)"

definition POST_reviews :: "externals \<Rightarrow> request \<Rightarrow> world \<Rightarrow> outcome" where
  "POST_reviews ext = protected ext (addReview ext)"

definition POST_replies :: "externals \<Rightarrow> request \<Rightarrow> world \<Rightarrow> outcome" where
  "POST_replies ext = protected ext (addReply ext)"

definition POST_favorite :: "externals \<Rightarrow> request \<Rightarrow> world \<Rightarrow> outcome" where
  "POST_favorite ext = protected ext (addFavorite ext)"

definition DELETE_favorite :: "externals \<Rightarrow> request \<Rightarrow> world \<Rightarrow> outcome" where
  "DELETE_favorite ext = protected ext (removeFavorite ext)"

section \<open>A small world to run the routes on\<close>

definition alice :: user where
  "alice =
     \<lparr>user_id = ''64a000000000000000000001'', username = ''alice'',
      email = ''alice@example.com'', password = Some ''hash-of-alice'',
      profilePhoto = Some \<lparr>public_id = ''recipe-app/profiles/alice'',
                            url = ''https://img.example/alice.jpg''\<rparr>,
      favorites = []\<rparr>"

definition bob :: user where
  "bob =
     \<lparr>user_id = ''64a000000000000000000002'', username = ''bob'',
      email = ''bob@example.com'', password = Some ''hash-of-bob'',
      profilePhoto = None, favorites = []\<rparr>"

definition soup :: stored_recipe where
  "soup =
     \<lparr>recipe_id = ''64b000000000000000000001'', title = ''Soup'',
      ingredients = [''salt'', ''water''], instructions = ''boil'', category = ''dinner'',
      cookingTime = ''20'',
      recipe_photo = \<lparr>public_id = ''recipe-app/recipes/soup'',
                       url = ''https://img.example/soup.jpg''\<rparr>,
      createdBy = ''64a000000000000000000001'', reviews = []\<rparr>"

definition kitchen :: world where
  "kitchen = \<lparr>recipes = [soup], users = [alice, bob], effects = []\<rparr>"

text \<open>Collaborators that work: identifiers are 24 hexadecimal digits, two tokens are
  valid, Cloudinary accepts every call.\<close>

definition services :: externals where
  "services =
     \<lparr>ObjectId_isValid = (\<lambda>s. length s = 24 \<and> list_all (\<lambda>c. c \<in> set ''0123456789abcdef'') s),
      jwt_verify = (\<lambda>t. if t = ''token-of-alice'' then Some (Some ''64a000000000000000000001'')
                        else if t = ''token-of-bob'' then Some (Some ''64a000000000000000000002'')
                        else None),
      JSON_parse = (\<lambda>s. if s = ''[]'' then Inr [] else Inl ''Unexpected token''),
      StringToNumber = (\<lambda>s. NaN),
      destroy = (\<lambda>p. None),
      upload_stream = (\<lambda>folder buf.
        Inr \<lparr>result_public_id = ''recipe-app/new'', secure_url = ''https://img.example/new.jpg''\<rparr>),
      newObjectId = ''64c000000000000000000001''\<rparr>"

text \<open>The same, with a Cloudinary that rejects \<open>destroy\<close>, and one that rejects uploads.\<close>

definition services_destroy_fails :: externals where
  "services_destroy_fails = services\<lparr>destroy := (\<lambda>p. Some ''Request Timeout'')\<rparr>"

definition services_upload_fails :: externals where
  "services_upload_fails = services\<lparr>upload_stream := (\<lambda>folder buf. Inl ''Request Timeout'')\<rparr>"

text \<open>A request for the recipe \<open>soup\<close> with nothing else in it, and the same request
  carrying the bearer token of a user.\<close>

definition soup_request :: request where
  "soup_request =
     \<lparr>authorization = None, params_id = ''64b000000000000000000001'', params_reviewId = [],
      query_category = None, body_title = None, body_ingredients = None,
      body_instructions = None, body_category = None, body_cookingTime = None,
      body_rating = Undefined, body_description = Undefined, req_file = None\<rparr>"

definition as_alice :: "request \<Rightarrow> request" where
  "as_alice req = req\<lparr>authorization := Some ''Bearer token-of-alice''\<rparr>"

definition as_bob :: "request \<Rightarrow> request" where
  "as_bob req = req\<lparr>authorization := Some ''Bearer token-of-bob''\<rparr>"

definition jpeg :: uploaded_file where
  "jpeg = \<lparr>originalname = ''new.jpg'', file_buffer = [0xFF, 0xD8, 0xFF, 0xE0]\<rparr>"

text \<open>Alice with the soup among her favorites.\<close>

definition alice_with_favorite :: user where
  "alice_with_favorite = alice\<lparr>favorites := [''64b000000000000000000001'']\<rparr>"

definition kitchen_with_favorite :: world where
  "kitchen_with_favorite = kitchen\<lparr>users := [alice_with_favorite, bob]\<rparr>"

text \<open>The soup once Bob has reviewed it.\<close>

definition bobs_review :: "objectId review" where
  "bobs_review =
     \<lparr>review_id = ''64d000000000000000000001'', rating = Fin 8,
      review_description = ''warming'', review_user = ''64a000000000000000000002'',
      replies = []\<rparr>"

definition soup_reviewed :: stored_recipe where
  "soup_reviewed = soup\<lparr>reviews := [bobs_review]\<rparr>"

definition kitchen_reviewed :: world where
  "kitchen_reviewed = kitchen\<lparr>recipes := [soup_reviewed]\<rparr>"

text \<open>Bob's request to review the soup, Alice's reply to Bob's review, and Alice's request
  to create a recipe.\<close>

definition review_request :: "rat \<Rightarrow> string \<Rightarrow> request" where
  "review_request q d =
     as_bob (soup_request\<lparr>body_rating := Number (Fin q), body_description := String d\<rparr>)"

definition reply_request :: "string \<Rightarrow> request" where
  "reply_request d =
     as_alice (soup_request\<lparr>params_reviewId := ''64d000000000000000000001'',
                            body_description := String d\<rparr>)"

definition stew_request :: request where
  "stew_request =
     as_alice (soup_request\<lparr>params_id := [], body_title := Some ''Stew'',
       body_ingredients := Some ''[]'', body_instructions := Some ''simmer'',
       body_category := Some ''dinner'', body_cookingTime := Some ''90'',
       req_file := Some jpeg\<rparr>)"

text \<open>Alice's requests to replace the photo of the soup and to rename it; the stew her
  creation request leaves in the kitchen.\<close>

definition photo_request :: request where
  "photo_request = as_alice (soup_request\<lparr>req_file := Some jpeg\<rparr>)"

definition rename_request :: request where
  "rename_request = as_alice (soup_request\<lparr>body_title := Some ''Broth''\<rparr>)"

definition stew :: stored_recipe where
  "stew =
     \<lparr>recipe_id = ''64c000000000000000000001'', title = ''Stew'', ingredients = [],
      instructions = ''simmer'', category = ''dinner'', cookingTime = ''90'',
      recipe_photo = \<lparr>public_id = ''recipe-app/new'', url = ''https://img.example/new.jpg''\<rparr>,
      createdBy = ''64a000000000000000000001'', reviews = []\<rparr>"

definition kitchen_with_stew :: world where
  "kitchen_with_stew =
     \<lparr>recipes = [soup, stew], users = [alice, bob],
      effects = [CloudinaryUpload ''recipe-app/recipes'' (file_buffer jpeg),
                 RecipeCreate ''64c000000000000000000001'']\<rparr>"

text \<open>Alice's request for a new profile photo, and Bob's request concerning the soup as
  one of his favorites.\<close>

definition profile_request :: request where
  "profile_request = as_alice (soup_request\<lparr>params_id := [], req_file := Some jpeg\<rparr>)"

definition favorite_request :: request where
  "favorite_request = as_bob soup_request"

section \<open>Vocabulary of the properties\<close>

text \<open>The routes modelled above. The router's three other routes (\<open>GET /favorites\<close>,
  \<open>GET /my-recipes\<close>, \<open>GET /users/:userId/recipes\<close>) only read the collections.\<close>

datatype route =
    PutProfilePhoto | PostRecipe | GetRecipes | GetRecipe | PutRecipe | DeleteRecipe
  | PostReview | PostReply | PostFavorite | DeleteFavorite

fun router :: "externals \<Rightarrow> route \<Rightarrow> request \<Rightarrow> world \<Rightarrow> outcome" where
  "router ext PutProfilePhoto = PUT_users_profile_photo ext"
| "router ext PostRecipe = POST_recipes ext"
| "router ext GetRecipes = GET_recipes ext"
| "router ext GetRecipe = GET_recipe ext"
| "router ext PutRecipe = PUT_recipe ext"
| "router ext DeleteRecipe = DELETE_recipe ext"
| "router ext PostReview = POST_reviews ext"
| "router ext PostReply = POST_replies ext"
| "router ext PostFavorite = POST_favorite ext"
| "router ext DeleteFavorite = DELETE_favorite ext"

text \<open>No stored recipe holds two reviews by the same user.\<close>

definition unique_reviewers :: "world \<Rightarrow> bool" where
  "unique_reviewers w = list_all (\<lambda>r. distinct (map review_user (reviews r))) (recipes w)"

text \<open>The release of the old asset that a photo replacement issues: one \<open>destroy\<close> when
  the stored handle has a \<open>public_id\<close>, none otherwise.\<close>

definition old_recipe_release :: "stored_recipe \<Rightarrow> effect list" where
  "old_recipe_release r =
     (if public_id (recipe_photo r) \<noteq> [] then [CloudinaryDestroy (public_id (recipe_photo r))]
      else [])"

definition old_profile_release :: "user \<Rightarrow> effect list" where
  "old_profile_release u =
     (case profilePhoto u of
        None \<Rightarrow> []
      | Some old \<Rightarrow> if public_id old \<noteq> [] then [CloudinaryDestroy (public_id old)] else [])"

section \<open>Properties\<close>

subsection \<open>Lookups after a write\<close>

lemma protected_authenticated:
  "protect ext w req = Inr u \<Longrightarrow> protected ext handler req w = handler u req w"
  by (simp add: protected_def)

lemma find_key_Some:
  "find (\<lambda>x. key x = i) xs = Some y \<Longrightarrow> key y = i \<and> y \<in> set xs"
  by (induction xs) (auto split: if_splits)

lemma find_key_saved:
  "find (\<lambda>x. key x = i) xs = Some y \<Longrightarrow> key z = i \<Longrightarrow>
   find (\<lambda>x. key x = i) (map (\<lambda>x. if key x = key z then z else x) xs) = Some z"
  by (induction xs) (auto split: if_splits)

lemma find_key_deleted:
  "find (\<lambda>x. key x = i) (filter (\<lambda>x. key x \<noteq> i) xs) = None"
  by (induction xs) auto

lemma Recipe_findById_id:
  "Recipe_findById w i = Some r \<Longrightarrow> recipe_id r = i"
  unfolding Recipe_findById_def by (drule find_key_Some) simp

lemma Recipe_findById_mem:
  "Recipe_findById w i = Some r \<Longrightarrow> r \<in> set (recipes w)"
  unfolding Recipe_findById_def by (drule find_key_Some) simp

lemma Recipe_findById_save:
  "Recipe_findById w i = Some r \<Longrightarrow> recipe_id r' = i \<Longrightarrow>
   Recipe_findById (Recipe_save r' w) i = Some r'"
  unfolding Recipe_findById_def Recipe_save_def
  using find_key_saved [of recipe_id i "recipes w" r r'] by simp

lemma Recipe_findById_deleteOne:
  "recipe_id r = i \<Longrightarrow> Recipe_findById (Recipe_deleteOne r w) i = None"
  unfolding Recipe_findById_def Recipe_deleteOne_def
  using find_key_deleted [of recipe_id i "recipes w"] by simp

lemma Recipe_findById_effects [simp]:
  "Recipe_findById (w\<lparr>effects := e\<rparr>) i = Recipe_findById w i"
  by (simp add: Recipe_findById_def)

lemma User_findById_effects [simp]:
  "User_findById (w\<lparr>effects := e\<rparr>) i = User_findById w i"
  by (simp add: User_findById_def)

subsection \<open>Release of the photo asset on delete and update\<close>

text \<open>
  C1, as the code has it. For a delete by the owner of an existing recipe: when the recipe
  has no \<open>public_id\<close> or Cloudinary's \<open>destroy\<close> succeeds, the answer is 200 "Recipe
  deleted" and the recipe is gone. When \<open>destroy\<close> is rejected, nothing catches the
  rejection: the handler throws it before \<open>deleteOne\<close>, the world differs only by the
  attempted call, and the error middleware answers 500. An update that carries a new photo
  fails in the same way, before anything is saved.
\<close>

theorem C1_destroy_rejection_fails_request:
  assumes auth: "protect ext w req = Inr u"
    and valid: "ObjectId_isValid ext (params_id req)"
    and found: "Recipe_findById w (params_id req) = Some r"
    and owner: "createdBy r = user_id u"
  shows "(public_id (recipe_photo r) = [] \<or> destroy ext (public_id (recipe_photo r)) = None \<longrightarrow>
            fst (DELETE_recipe ext req w) = Inr (200, Message ''Recipe deleted'') \<and>
            Recipe_findById (snd (DELETE_recipe ext req w)) (params_id req) = None) \<and>
         (\<forall>m. public_id (recipe_photo r) \<noteq> [] \<and> destroy ext (public_id (recipe_photo r)) = Some m \<longrightarrow>
            DELETE_recipe ext req w =
              (Inl (Failure 200 m),
               w\<lparr>effects := effects w @ [CloudinaryDestroy (public_id (recipe_photo r))]\<rparr>) \<and>
            errorHandler (Failure 200 m) = (500, Message ''Server error'') \<and>
            (\<forall>f. req_file req = Some f \<longrightarrow>
               PUT_recipe ext req w =
                 (Inl (Failure 200 m),
                  w\<lparr>effects := effects w @ [CloudinaryDestroy (public_id (recipe_photo r))]\<rparr>)))"
proof -
  have rid: "recipe_id r = params_id req"
    using found by (rule Recipe_findById_id)
  have del: "DELETE_recipe ext req w = deleteRecipe ext u req w"
    and put: "PUT_recipe ext req w = updateRecipe ext u req w"
    using auth by (simp_all add: DELETE_recipe_def PUT_recipe_def protected_authenticated)
  show ?thesis
    using valid found owner rid
    by (auto simp: del put deleteRecipe_def updateRecipe_def replacePhoto_def
        cloudinary_destroy_def errorHandler_def Recipe_findById_deleteOne)
qed

text \<open>Alice deletes her soup, once with a Cloudinary that works and once with one that
  rejects \<open>destroy\<close>; then she updates it with a new photo against the latter.\<close>

theorem C1_destroy_rejection_witness:
  "protect services kitchen (as_alice soup_request) = Inr (select_minus_password alice) \<and>
   ObjectId_isValid services (params_id (as_alice soup_request)) \<and>
   Recipe_findById kitchen (params_id (as_alice soup_request)) = Some soup \<and>
   createdBy soup = user_id (select_minus_password alice) \<and>
   fst (DELETE_recipe services (as_alice soup_request) kitchen) =
     Inr (200, Message ''Recipe deleted'') \<and>
   Recipe_findById (snd (DELETE_recipe services (as_alice soup_request) kitchen))
     (params_id (as_alice soup_request)) = None \<and>
   DELETE_recipe services_destroy_fails (as_alice soup_request) kitchen =
     (Inl (Failure 200 ''Request Timeout''),
      kitchen\<lparr>effects := [CloudinaryDestroy ''recipe-app/recipes/soup'']\<rparr>) \<and>
   PUT_recipe services_destroy_fails (as_alice (soup_request\<lparr>req_file := Some jpeg\<rparr>)) kitchen =
     (Inl (Failure 200 ''Request Timeout''),
      kitchen\<lparr>effects := [CloudinaryDestroy ''recipe-app/recipes/soup'']\<rparr>)"
proof -
  let ?req = "as_alice soup_request"
  let ?put = "as_alice (soup_request\<lparr>req_file := Some jpeg\<rparr>)"
  have a: "protect services kitchen ?req = Inr (select_minus_password alice)"
    and a': "protect services_destroy_fails kitchen ?req = Inr (select_minus_password alice)"
    and a'': "protect services_destroy_fails kitchen ?put = Inr (select_minus_password alice)"
    by code_simp+
  have b: "ObjectId_isValid services (params_id ?req)"
    and b': "ObjectId_isValid services_destroy_fails (params_id ?req)"
    and b'': "ObjectId_isValid services_destroy_fails (params_id ?put)"
    by code_simp+
  have c: "Recipe_findById kitchen (params_id ?req) = Some soup"
    and c'': "Recipe_findById kitchen (params_id ?put) = Some soup"
    by code_simp+
  have d: "createdBy soup = user_id (select_minus_password alice)"
    by code_simp
  have ok: "destroy services (public_id (recipe_photo soup)) = None"
    and ko: "destroy services_destroy_fails (public_id (recipe_photo soup)) = Some ''Request Timeout''"
    and p: "public_id (recipe_photo soup) = ''recipe-app/recipes/soup''"
    and f: "req_file ?put = Some jpeg"
    and e: "effects kitchen = []"
    by code_simp+
  from C1_destroy_rejection_fails_request [OF a b c d]
    C1_destroy_rejection_fails_request [OF a' b' c d]
    C1_destroy_rejection_fails_request [OF a'' b'' c'' d]
    a b c d ok ko p f e
  show ?thesis by simp
qed

text \<open>The claim as the specification words it (a failed release is swallowed, the record
  is deleted and the operation succeeds) fails on this run: the owner's delete is answered
  with the rejection, and the recipe is still stored afterwards.\<close>

theorem C1_swallowed_release_counterexample:
  "protect services_destroy_fails kitchen (as_alice soup_request) =
     Inr (select_minus_password alice) \<and>
   Recipe_findById kitchen (params_id (as_alice soup_request)) = Some soup \<and>
   createdBy soup = user_id (select_minus_password alice) \<and>
   destroy services_destroy_fails (public_id (recipe_photo soup)) = Some ''Request Timeout'' \<and>
   fst (DELETE_recipe services_destroy_fails (as_alice soup_request) kitchen) =
     Inl (Failure 200 ''Request Timeout'') \<and>
   Recipe_findById (snd (DELETE_recipe services_destroy_fails (as_alice soup_request) kitchen))
     (params_id (as_alice soup_request)) = Some soup"
  by code_simp

subsection \<open>Ownership\<close>

text \<open>
  C5. An authenticated user who is not the owner of an existing recipe gets 401 "Not
  authorized" from both the update and the delete route, whatever the rest of the request
  holds, and the world (recipes, users, calls to Cloudinary) is what it was.
\<close>

theorem C5_non_owner_forbidden:
  assumes "protect ext w req = Inr u"
    and "ObjectId_isValid ext (params_id req)"
    and "Recipe_findById w (params_id req) = Some r"
    and "createdBy r \<noteq> user_id u"
  shows "PUT_recipe ext req w = (Inl (Failure 401 ''Not authorized''), w) \<and>
         DELETE_recipe ext req w = (Inl (Failure 401 ''Not authorized''), w)"
  using assms
  by (simp add: PUT_recipe_def DELETE_recipe_def protected_authenticated
      updateRecipe_def deleteRecipe_def)

text \<open>Bob sends a new photo and unparsable ingredients for Alice's soup.\<close>

theorem C5_non_owner_witness:
  "protect services kitchen
     (as_bob (soup_request\<lparr>body_ingredients := Some ''not json'', req_file := Some jpeg\<rparr>)) =
     Inr (select_minus_password bob) \<and>
   createdBy soup \<noteq> user_id (select_minus_password bob) \<and>
   PUT_recipe services
     (as_bob (soup_request\<lparr>body_ingredients := Some ''not json'', req_file := Some jpeg\<rparr>)) kitchen =
     (Inl (Failure 401 ''Not authorized''), kitchen) \<and>
   DELETE_recipe services
     (as_bob (soup_request\<lparr>body_ingredients := Some ''not json'', req_file := Some jpeg\<rparr>)) kitchen =
     (Inl (Failure 401 ''Not authorized''), kitchen)"
proof -
  let ?req = "as_bob (soup_request\<lparr>body_ingredients := Some ''not json'', req_file := Some jpeg\<rparr>)"
  have a: "protect services kitchen ?req = Inr (select_minus_password bob)"
    by code_simp
  have b: "ObjectId_isValid services (params_id ?req)"
    by code_simp
  have c: "Recipe_findById kitchen (params_id ?req) = Some soup"
    by code_simp
  have d: "createdBy soup \<noteq> user_id (select_minus_password bob)"
    by code_simp
  from C5_non_owner_forbidden [OF a b c d] a d show ?thesis by simp
qed

subsection \<open>More on lookups, saves and the authenticated user\<close>

lemma User_findById_id:
  "User_findById w i = Some u \<Longrightarrow> user_id u = i"
  unfolding User_findById_def by (drule find_key_Some) simp

lemma User_findById_save:
  "User_findById w i = Some u \<Longrightarrow> user_id u' = i \<Longrightarrow>
   User_findById (User_save u' w) i = Some u'"
  unfolding User_findById_def User_save_def
  using find_key_saved [of user_id i "users w" u u'] by simp

lemma Recipe_findById_User_save [simp]:
  "Recipe_findById (User_save u w) i = Recipe_findById w i"
  by (simp add: Recipe_findById_def User_save_def)

lemma find_key_saved_any:
  "find (\<lambda>x. key x = j) (map (\<lambda>x. if key x = key z then z else x) xs) =
     (if j = key z then map_option (\<lambda>_. z) (find (\<lambda>x. key x = j) xs)
      else find (\<lambda>x. key x = j) xs)"
  by (induction xs) auto

lemma Recipe_findById_save_any:
  "Recipe_findById (Recipe_save r' w) j =
     (if j = recipe_id r' then map_option (\<lambda>_. r') (Recipe_findById w j)
      else Recipe_findById w j)"
  unfolding Recipe_findById_def Recipe_save_def
  using find_key_saved_any [of recipe_id j r' "recipes w"] by simp

lemma Recipe_save_ids:
  "map recipe_id (recipes (Recipe_save r' w)) = map recipe_id (recipes w)"
  by (simp add: Recipe_save_def comp_def)

lemma Recipe_save_users [simp]: "users (Recipe_save r' w) = users w"
  by (simp add: Recipe_save_def)

text \<open>\<open>protect\<close> lets a request through only as a user that is stored, and hands the
  handler that user without the password.\<close>

lemma protect_user:
  assumes "protect ext w req = Inr u"
  shows "\<exists>usr. User_findById w (user_id u) = Some usr \<and> u = select_minus_password usr"
proof -
  from assms obtain i usr
    where f: "User_findById w i = Some usr" and u: "u = select_minus_password usr"
    by (auto simp: protect_def split: option.splits if_splits)
  from f have "user_id usr = i" by (rule User_findById_id)
  with f u show ?thesis by (auto simp: select_minus_password_def)
qed

lemma protect_after_save:
  assumes auth: "protect ext w req = Inr u"
    and same: "user_id usr' = user_id u"
  shows "protect ext (User_save usr' w) req = Inr (select_minus_password usr')"
proof -
  from auth obtain h t i usr
    where h: "authorization req = Some h" "h \<noteq> []" "startsWith h ''Bearer''"
      and t: "at_index (split CHR '' '' h) 1 = Some t"
      and i: "jwt_verify ext t = Some (Some i)" "i \<noteq> []"
      and f: "User_findById w i = Some usr" and u: "u = select_minus_password usr"
    by (auto simp: protect_def split: option.splits if_splits)
  from f have "user_id usr = i" by (rule User_findById_id)
  with u same have "user_id usr' = i" by (simp add: select_minus_password_def)
  with f have "User_findById (User_save usr' w) i = Some usr'"
    by (rule User_findById_save)
  with h t i show ?thesis by (simp add: protect_def)
qed

lemma trim_Nil [simp]: "trim [] = []"
  by (simp add: trim_def)

subsection \<open>What an update may change\<close>

lemma assignFields_frame:
  "assignFields ext req r = Inr r2 \<Longrightarrow>
   recipe_id r2 = recipe_id r \<and> recipe_photo r2 = recipe_photo r \<and>
   createdBy r2 = createdBy r \<and> reviews r2 = reviews r"
  by (auto simp: assignFields_def split: sum.splits)

lemma replacePhoto_frame:
  assumes "replacePhoto ext upl r w = (res, w1)"
  shows "recipes w1 = recipes w \<and> users w1 = users w \<and>
   (\<forall>r1. res = Inr r1 \<longrightarrow>
      recipe_id r1 = recipe_id r \<and> createdBy r1 = createdBy r \<and> reviews r1 = reviews r)"
proof (cases upl)
  case None
  with assms show ?thesis by (auto simp: replacePhoto_def)
next
  case (Some f)
  with assms show ?thesis
    unfolding replacePhoto_def cloudinary_destroy_def cloudinary_upload_def
    by (cases "destroy ext (public_id (recipe_photo r))";
        cases "upload_stream ext ''recipe-app/recipes'' (file_buffer f)";
        cases "public_id (recipe_photo r) = []") auto
qed

text \<open>The three ways out of the block under \<open>if (req.file)\<close>.\<close>

lemma replacePhoto_some:
  "replacePhoto ext (Some f) r w =
     (if public_id (recipe_photo r) \<noteq> [] \<and> destroy ext (public_id (recipe_photo r)) \<noteq> None
      then (Inl (Failure 200 (the (destroy ext (public_id (recipe_photo r))))),
            w\<lparr>effects := effects w @ old_recipe_release r\<rparr>)
      else (case upload_stream ext ''recipe-app/recipes'' (file_buffer f) of
              Inl m \<Rightarrow> (Inl (Failure 200 m),
                 w\<lparr>effects := effects w @ old_recipe_release r @
                      [CloudinaryUpload ''recipe-app/recipes'' (file_buffer f)]\<rparr>)
            | Inr res \<Rightarrow>
                (Inr (r\<lparr>recipe_photo := \<lparr>public_id = result_public_id res, url = secure_url res\<rparr>\<rparr>),
                 w\<lparr>effects := effects w @ old_recipe_release r @
                      [CloudinaryUpload ''recipe-app/recipes'' (file_buffer f)]\<rparr>)))"
  by (auto simp: replacePhoto_def cloudinary_destroy_def cloudinary_upload_def
      old_recipe_release_def split: option.splits sum.splits)

text \<open>What an update leaves of the world: either the recipes as they were, or the found
  recipe saved with the same identifier, owner and reviews.\<close>

lemma updateRecipe_world:
  assumes found: "Recipe_findById w (params_id req) = Some r"
  shows "users (snd (updateRecipe ext u req w)) = users w \<and>
         (recipes (snd (updateRecipe ext u req w)) = recipes w \<or>
          (\<exists>r2 w1. recipes w1 = recipes w \<and> recipe_id r2 = recipe_id r \<and>
             createdBy r2 = createdBy r \<and> reviews r2 = reviews r \<and>
             snd (updateRecipe ext u req w) = Recipe_save r2 w1))"
proof -
  obtain res w1 where rp: "replacePhoto ext (req_file req) r w = (res, w1)"
    by (cases "replacePhoto ext (req_file req) r w")
  note fr = replacePhoto_frame [OF rp]
  show ?thesis
  proof (cases res)
    case (Inl err)
    with found rp fr show ?thesis by (simp add: updateRecipe_def)
  next
    case r1: (Inr r1)
    show ?thesis
    proof (cases "assignFields ext req r1")
      case (Inl err)
      with found rp fr r1 show ?thesis by (simp add: updateRecipe_def)
    next
      case (Inr r2)
      from fr r1
      have f1: "recipe_id r1 = recipe_id r" "createdBy r1 = createdBy r" "reviews r1 = reviews r"
        by blast+
      from assignFields_frame [OF Inr]
      have f2: "recipe_id r2 = recipe_id r1" "createdBy r2 = createdBy r1" "reviews r2 = reviews r1"
        by blast+
      have fr2: "recipe_id r2 = recipe_id r" "createdBy r2 = createdBy r" "reviews r2 = reviews r"
        by (simp_all only: f1 f2)
      have w1: "recipes w1 = recipes w" and us: "users w1 = users w"
        using fr by blast+
      have "snd (updateRecipe ext u req w) = w \<or>
            snd (updateRecipe ext u req w) = Recipe_save r2 w1"
        using found rp r1 Inr by (simp add: updateRecipe_def Let_def split: option.split)
      then show ?thesis
      proof
        assume "snd (updateRecipe ext u req w) = w"
        then show ?thesis by simp
      next
        assume w': "snd (updateRecipe ext u req w) = Recipe_save r2 w1"
        have "users (snd (updateRecipe ext u req w)) = users w"
          unfolding w' using us by simp
        moreover have "\<exists>r2 w1. recipes w1 = recipes w \<and> recipe_id r2 = recipe_id r \<and>
             createdBy r2 = createdBy r \<and> reviews r2 = reviews r \<and>
             snd (updateRecipe ext u req w) = Recipe_save r2 w1"
          using w1 fr2 w' by blast
        ultimately show ?thesis by blast
      qed
    qed
  qed
qed

subsection \<open>Replacing the photo of a recipe\<close>

text \<open>
  C3. When the owner updates an existing recipe with new photo bytes, the effects of the
  request are an initial segment of: release of the old asset (when the recipe has one),
  upload of the new bytes, save of the recipe. The save is there only if the release (when
  there was one) and the upload both succeeded, and then the stored recipe carries the new
  handle. Without a save the stored recipes are what they were; in particular, when the
  upload is rejected the request fails and the stored recipe is the old one, old photo
  handle included. When both calls succeed and the fields can be assigned, the request
  succeeds with exactly these three effects.
\<close>

theorem C3_photo_replacement:
  assumes auth: "protect ext w req = Inr u"
    and valid: "ObjectId_isValid ext (params_id req)"
    and found: "Recipe_findById w (params_id req) = Some r"
    and owner: "createdBy r = user_id u"
    and upl: "req_file req = Some f"
  shows "(\<exists>new. effects (snd (PUT_recipe ext req w)) = effects w @ new \<and>
            prefix new (old_recipe_release r @
              [CloudinaryUpload ''recipe-app/recipes'' (file_buffer f),
               RecipeSave (params_id req)]) \<and>
            (RecipeSave (params_id req) \<in> set new \<longrightarrow>
               (public_id (recipe_photo r) = [] \<or>
                destroy ext (public_id (recipe_photo r)) = None) \<and>
               (\<exists>res. upload_stream ext ''recipe-app/recipes'' (file_buffer f) = Inr res \<and>
                  map_option recipe_photo
                    (Recipe_findById (snd (PUT_recipe ext req w)) (params_id req)) =
                  Some \<lparr>public_id = result_public_id res, url = secure_url res\<rparr>)) \<and>
            (RecipeSave (params_id req) \<notin> set new \<longrightarrow>
               recipes (snd (PUT_recipe ext req w)) = recipes w)) \<and>
         (\<forall>m. upload_stream ext ''recipe-app/recipes'' (file_buffer f) = Inl m \<longrightarrow>
            isl (fst (PUT_recipe ext req w)) \<and>
            Recipe_findById (snd (PUT_recipe ext req w)) (params_id req) = Some r) \<and>
         (\<forall>res r2.
            (public_id (recipe_photo r) = [] \<or>
             destroy ext (public_id (recipe_photo r)) = None) \<and>
            upload_stream ext ''recipe-app/recipes'' (file_buffer f) = Inr res \<and>
            assignFields ext req
              (r\<lparr>recipe_photo := \<lparr>public_id = result_public_id res, url = secure_url res\<rparr>\<rparr>) =
              Inr r2 \<longrightarrow>
            \<not> isl (fst (PUT_recipe ext req w)) \<and>
            effects (snd (PUT_recipe ext req w)) =
              effects w @ old_recipe_release r @
                [CloudinaryUpload ''recipe-app/recipes'' (file_buffer f),
                 RecipeSave (params_id req)] \<and>
            Recipe_findById (snd (PUT_recipe ext req w)) (params_id req) = Some r2 \<and>
            recipe_photo r2 = \<lparr>public_id = result_public_id res, url = secure_url res\<rparr>)"
proof -
  have rid: "recipe_id r = params_id req"
    using found by (rule Recipe_findById_id)
  have route: "PUT_recipe ext req w = updateRecipe ext u req w"
    using auth by (simp add: PUT_recipe_def protected_authenticated)
  have norel: "RecipeSave (params_id req) \<notin> set (old_recipe_release r)"
    by (simp add: old_recipe_release_def)
  have saved: "\<And>e r2. recipe_id r2 = params_id req \<Longrightarrow>
      Recipe_findById (Recipe_save r2 (w\<lparr>effects := e\<rparr>)) (params_id req) = Some r2"
    using found by (intro Recipe_findById_save [where r = r]) simp_all
  have eff: "\<And>r2 w1. effects (Recipe_save r2 w1) = effects w1 @ [RecipeSave (recipe_id r2)]"
    by (simp add: Recipe_save_def)
  show ?thesis
    unfolding route
    using valid found owner upl rid norel
    by (auto simp: updateRecipe_def replacePhoto_some Let_def saved eff
        dest!: assignFields_frame split: sum.splits)
qed

text \<open>Alice sends a new photo for her soup: once to a Cloudinary that rejects the upload,
  once to one that works.\<close>

theorem C3_photo_replacement_witness:
  "protect services kitchen photo_request = Inr (select_minus_password alice) \<and>
   createdBy soup = user_id (select_minus_password alice) \<and>
   req_file photo_request = Some jpeg \<and>
   upload_stream services_upload_fails ''recipe-app/recipes'' (file_buffer jpeg) =
     Inl ''Request Timeout'' \<and>
   isl (fst (PUT_recipe services_upload_fails photo_request kitchen)) \<and>
   Recipe_findById (snd (PUT_recipe services_upload_fails photo_request kitchen))
     (params_id photo_request) = Some soup \<and>
   \<not> isl (fst (PUT_recipe services photo_request kitchen)) \<and>
   effects (snd (PUT_recipe services photo_request kitchen)) =
     [CloudinaryDestroy ''recipe-app/recipes/soup'',
      CloudinaryUpload ''recipe-app/recipes'' (file_buffer jpeg),
      RecipeSave (params_id photo_request)] \<and>
   map_option recipe_photo
     (Recipe_findById (snd (PUT_recipe services photo_request kitchen))
        (params_id photo_request)) =
     Some \<lparr>public_id = ''recipe-app/new'', url = ''https://img.example/new.jpg''\<rparr>"
proof -
  let ?res = "\<lparr>result_public_id = ''recipe-app/new'',
               secure_url = ''https://img.example/new.jpg''\<rparr>"
  let ?r2 = "soup\<lparr>recipe_photo :=
               \<lparr>public_id = ''recipe-app/new'', url = ''https://img.example/new.jpg''\<rparr>\<rparr>"
  have a: "protect services kitchen photo_request = Inr (select_minus_password alice)"
    and a': "protect services_upload_fails kitchen photo_request =
               Inr (select_minus_password alice)"
    by code_simp+
  have b: "ObjectId_isValid services (params_id photo_request)"
    and b': "ObjectId_isValid services_upload_fails (params_id photo_request)"
    by code_simp+
  have c: "Recipe_findById kitchen (params_id photo_request) = Some soup"
    by code_simp
  have d: "createdBy soup = user_id (select_minus_password alice)"
    by code_simp
  have e: "req_file photo_request = Some jpeg"
    by code_simp
  have ko: "upload_stream services_upload_fails ''recipe-app/recipes'' (file_buffer jpeg) =
              Inl ''Request Timeout''"
    by code_simp
  have ok: "(public_id (recipe_photo soup) = [] \<or>
             destroy services (public_id (recipe_photo soup)) = None) \<and>
            upload_stream services ''recipe-app/recipes'' (file_buffer jpeg) = Inr ?res \<and>
            assignFields services photo_request
              (soup\<lparr>recipe_photo :=
                 \<lparr>public_id = result_public_id ?res, url = secure_url ?res\<rparr>\<rparr>) = Inr ?r2"
    by code_simp
  have rel: "old_recipe_release soup = [CloudinaryDestroy ''recipe-app/recipes/soup'']"
    and eff: "effects kitchen = []"
    and ph: "recipe_photo ?r2 =
               \<lparr>public_id = ''recipe-app/new'', url = ''https://img.example/new.jpg''\<rparr>"
    by code_simp+
  note failing = C3_photo_replacement [OF a' b' c d e, THEN conjunct2, THEN conjunct1,
      rule_format, OF ko]
  note working = C3_photo_replacement [OF a b c d e, THEN conjunct2, THEN conjunct2,
      rule_format, OF ok]
  from failing working a d e ko rel eff ph show ?thesis by simp
qed

subsection \<open>The owner of a recipe\<close>

text \<open>
  C8. A recipe created by an authenticated user is appended to the collection with that
  user's identifier as \<open>createdBy\<close> (a failed creation stores nothing). An update by an
  authenticated user leaves, under every identifier, a recipe with the same identifier,
  \<open>createdBy\<close> and reviews as before, and leaves the recipes under all other identifiers
  and all users untouched: what it can change is the title, the ingredients, the
  instructions, the category, the cooking time and the photo of the one recipe.
\<close>

theorem C8_createdBy_fixed:
  assumes auth: "protect ext w req = Inr u"
  shows "(\<forall>resp w'. POST_recipes ext req w = (Inr resp, w') \<longrightarrow>
            (\<exists>r. recipes w' = recipes w @ [r] \<and> createdBy r = user_id u \<and>
               recipe_id r = newObjectId ext)) \<and>
         (\<forall>err w'. POST_recipes ext req w = (Inl err, w') \<longrightarrow> recipes w' = recipes w) \<and>
         (\<forall>j. map_option (\<lambda>x. (recipe_id x, createdBy x, reviews x))
                (Recipe_findById (snd (PUT_recipe ext req w)) j) =
              map_option (\<lambda>x. (recipe_id x, createdBy x, reviews x)) (Recipe_findById w j) \<and>
              (j \<noteq> params_id req \<longrightarrow>
                 Recipe_findById (snd (PUT_recipe ext req w)) j = Recipe_findById w j)) \<and>
         map recipe_id (recipes (snd (PUT_recipe ext req w))) = map recipe_id (recipes w) \<and>
         users (snd (PUT_recipe ext req w)) = users w"
proof -
  have post: "POST_recipes ext req w = createRecipe ext u req w"
    and put: "PUT_recipe ext req w = updateRecipe ext u req w"
    using auth by (simp_all add: POST_recipes_def PUT_recipe_def protected_authenticated)
  have create: "(\<forall>resp w'. createRecipe ext u req w = (Inr resp, w') \<longrightarrow>
            (\<exists>r. recipes w' = recipes w @ [r] \<and> createdBy r = user_id u \<and>
               recipe_id r = newObjectId ext)) \<and>
         (\<forall>err w'. createRecipe ext u req w = (Inl err, w') \<longrightarrow> recipes w' = recipes w)"
    unfolding createRecipe_def cloudinary_upload_def Recipe_create_def
    by (auto simp: Let_def split: option.splits sum.splits)
  have update: "(\<forall>j. map_option (\<lambda>x. (recipe_id x, createdBy x, reviews x))
                (Recipe_findById (snd (updateRecipe ext u req w)) j) =
              map_option (\<lambda>x. (recipe_id x, createdBy x, reviews x)) (Recipe_findById w j) \<and>
              (j \<noteq> params_id req \<longrightarrow>
                 Recipe_findById (snd (updateRecipe ext u req w)) j = Recipe_findById w j)) \<and>
         map recipe_id (recipes (snd (updateRecipe ext u req w))) = map recipe_id (recipes w) \<and>
         users (snd (updateRecipe ext u req w)) = users w"
  proof (cases "Recipe_findById w (params_id req)")
    case None
    then show ?thesis by (simp add: updateRecipe_def)
  next
    case (Some r)
    have rid: "recipe_id r = params_id req"
      using Some by (rule Recipe_findById_id)
    from updateRecipe_world [OF Some, of ext u]
    have us: "users (snd (updateRecipe ext u req w)) = users w"
      and alt: "recipes (snd (updateRecipe ext u req w)) = recipes w \<or>
          (\<exists>r2 w1. recipes w1 = recipes w \<and> recipe_id r2 = recipe_id r \<and>
             createdBy r2 = createdBy r \<and> reviews r2 = reviews r \<and>
             snd (updateRecipe ext u req w) = Recipe_save r2 w1)"
      by simp_all
    from alt show ?thesis
    proof
      assume "recipes (snd (updateRecipe ext u req w)) = recipes w"
      with us show ?thesis by (simp add: Recipe_findById_def)
    next
      assume "\<exists>r2 w1. recipes w1 = recipes w \<and> recipe_id r2 = recipe_id r \<and>
             createdBy r2 = createdBy r \<and> reviews r2 = reviews r \<and>
             snd (updateRecipe ext u req w) = Recipe_save r2 w1"
      then obtain r2 w1 where w1: "recipes w1 = recipes w"
        and fr: "recipe_id r2 = recipe_id r" "createdBy r2 = createdBy r" "reviews r2 = reviews r"
        and w': "snd (updateRecipe ext u req w) = Recipe_save r2 w1"
        by blast
      have same: "\<And>j. Recipe_findById w1 j = Recipe_findById w j"
        using w1 by (simp add: Recipe_findById_def)
      have look: "\<And>j. map_option (\<lambda>x. (recipe_id x, createdBy x, reviews x))
                (Recipe_findById (Recipe_save r2 w1) j) =
              map_option (\<lambda>x. (recipe_id x, createdBy x, reviews x)) (Recipe_findById w j)"
      proof -
        fix j
        show "map_option (\<lambda>x. (recipe_id x, createdBy x, reviews x))
                (Recipe_findById (Recipe_save r2 w1) j) =
              map_option (\<lambda>x. (recipe_id x, createdBy x, reviews x)) (Recipe_findById w j)"
        proof (cases "j = params_id req")
          case True
          with Some rid fr show ?thesis
            by (simp add: Recipe_findById_save_any same)
        next
          case False
          with rid fr show ?thesis
            by (simp add: Recipe_findById_save_any same)
        qed
      qed
      have other: "\<And>j. j \<noteq> params_id req \<Longrightarrow>
          Recipe_findById (Recipe_save r2 w1) j = Recipe_findById w j"
        using rid fr by (simp add: Recipe_findById_save_any same)
      have ids: "map recipe_id (recipes (Recipe_save r2 w1)) = map recipe_id (recipes w)"
        using w1 by (simp add: Recipe_save_ids)
      show ?thesis
        using us look other ids unfolding w' by simp
    qed
  qed
  from create update show ?thesis
    unfolding post put by blast
qed

text \<open>Alice creates a stew, then renames her soup.\<close>

theorem C8_createdBy_witness:
  "protect services kitchen stew_request = Inr (select_minus_password alice) \<and>
   protect services kitchen rename_request = Inr (select_minus_password alice) \<and>
   snd (POST_recipes services stew_request kitchen) = kitchen_with_stew \<and>
   (\<exists>r. recipes kitchen_with_stew = recipes kitchen @ [r] \<and>
      createdBy r = user_id (select_minus_password alice) \<and>
      recipe_id r = newObjectId services) \<and>
   map_option title (Recipe_findById kitchen (params_id rename_request)) = Some ''Soup'' \<and>
   map_option (\<lambda>x. (recipe_id x, createdBy x, reviews x))
     (Recipe_findById (snd (PUT_recipe services rename_request kitchen))
        (params_id rename_request)) =
     Some (params_id rename_request, user_id alice, []) \<and>
   users (snd (PUT_recipe services rename_request kitchen)) = users kitchen"
proof -
  have a: "protect services kitchen stew_request = Inr (select_minus_password alice)"
    and a': "protect services kitchen rename_request = Inr (select_minus_password alice)"
    by code_simp+
  have created: "POST_recipes services stew_request kitchen =
      (Inr (201, RecipeSummary (populate_createdBy kitchen_with_stew stew) None),
       kitchen_with_stew)"
    by code_simp
  have before: "map_option (\<lambda>x. (recipe_id x, createdBy x, reviews x))
       (Recipe_findById kitchen (params_id rename_request)) =
     Some (params_id rename_request, user_id alice, [])"
    and t: "map_option title (Recipe_findById kitchen (params_id rename_request)) = Some ''Soup''"
    by code_simp+
  note creation = C8_createdBy_fixed [OF a, THEN conjunct1, rule_format, OF created]
  note update = C8_createdBy_fixed [OF a', THEN conjunct2, THEN conjunct2]
  from update have look: "map_option (\<lambda>x. (recipe_id x, createdBy x, reviews x))
       (Recipe_findById (snd (PUT_recipe services rename_request kitchen))
          (params_id rename_request)) =
     map_option (\<lambda>x. (recipe_id x, createdBy x, reviews x))
       (Recipe_findById kitchen (params_id rename_request))"
    and us: "users (snd (PUT_recipe services rename_request kitchen)) = users kitchen"
    by blast+
  from creation created look us a a' before t show ?thesis by simp
qed

subsection \<open>Replacing the profile photo\<close>

text \<open>
  C10. For an authenticated user who sends a file, the upload to Cloudinary is the first
  effect of the request; the release of the old profile photo (when the user has one) and
  the write of the user record can only follow it, in that order. When the upload is
  rejected the request fails with 500 "Failed to upload photo to Cloudinary", nothing else
  has been attempted and the stored user is what it was. When the upload and the release
  succeed, the answer is 200 with the new handle, which is also the stored one.
\<close>

theorem C10_profile_photo_upload_first:
  assumes auth: "protect ext w req = Inr u"
    and upl: "req_file req = Some f"
  shows "(\<exists>rest. effects (snd (PUT_users_profile_photo ext req w)) =
             effects w @ CloudinaryUpload ''recipe-app/profiles'' (file_buffer f) # rest \<and>
           prefix rest (old_profile_release u @ [UserSave (user_id u)])) \<and>
         (\<forall>m. upload_stream ext ''recipe-app/profiles'' (file_buffer f) = Inl m \<longrightarrow>
            PUT_users_profile_photo ext req w =
              (Inl (Failure 500 ''Failed to upload photo to Cloudinary''),
               w\<lparr>effects := effects w @
                    [CloudinaryUpload ''recipe-app/profiles'' (file_buffer f)]\<rparr>) \<and>
            User_findById (snd (PUT_users_profile_photo ext req w)) (user_id u) =
              User_findById w (user_id u)) \<and>
         (\<forall>res. upload_stream ext ''recipe-app/profiles'' (file_buffer f) = Inr res \<and>
            (\<forall>old. profilePhoto u = Some old \<and> public_id old \<noteq> [] \<longrightarrow>
               destroy ext (public_id old) = None) \<longrightarrow>
            fst (PUT_users_profile_photo ext req w) =
              Inr (200, ProfilePhotoBody
                     (Some \<lparr>public_id = result_public_id res, url = secure_url res\<rparr>)
                     ''Profile photo updated successfully'') \<and>
            effects (snd (PUT_users_profile_photo ext req w)) =
              effects w @ CloudinaryUpload ''recipe-app/profiles'' (file_buffer f) #
                old_profile_release u @ [UserSave (user_id u)] \<and>
            map_option profilePhoto
              (User_findById (snd (PUT_users_profile_photo ext req w)) (user_id u)) =
              Some (Some \<lparr>public_id = result_public_id res, url = secure_url res\<rparr>))"
proof -
  from protect_user [OF auth] obtain usr
    where usr: "User_findById w (user_id u) = Some usr" and u: "u = select_minus_password usr"
    by blast
  have uid: "user_id usr = user_id u"
    using u by (simp add: select_minus_password_def)
  have route: "PUT_users_profile_photo ext req w = updateProfilePhoto ext u req w"
    using auth by (simp add: PUT_users_profile_photo_def protected_authenticated)
  have saved: "\<And>e p. User_findById (User_save (usr\<lparr>profilePhoto := Some p\<rparr>) (w\<lparr>effects := e\<rparr>))
         (user_id u) = Some (usr\<lparr>profilePhoto := Some p\<rparr>)"
    using usr uid by (intro User_findById_save [where u = usr]) simp_all
  show ?thesis
    unfolding route
    using upl usr uid saved
    by (auto simp: updateProfilePhoto_def cloudinary_upload_def cloudinary_destroy_def
        old_profile_release_def User_findByIdAndUpdate_profilePhoto_def User_save_def
        select_minus_password_def
        split: option.splits sum.splits if_splits prod.splits)
qed

text \<open>Alice sends a new profile photo: once to a Cloudinary that rejects the upload, once
  to one that works.\<close>

theorem C10_profile_photo_witness:
  "protect services kitchen profile_request = Inr (select_minus_password alice) \<and>
   req_file profile_request = Some jpeg \<and>
   upload_stream services_upload_fails ''recipe-app/profiles'' (file_buffer jpeg) =
     Inl ''Request Timeout'' \<and>
   PUT_users_profile_photo services_upload_fails profile_request kitchen =
     (Inl (Failure 500 ''Failed to upload photo to Cloudinary''),
      kitchen\<lparr>effects := [CloudinaryUpload ''recipe-app/profiles'' (file_buffer jpeg)]\<rparr>) \<and>
   User_findById (snd (PUT_users_profile_photo services_upload_fails profile_request kitchen))
     (user_id alice) = Some alice \<and>
   fst (PUT_users_profile_photo services profile_request kitchen) =
     Inr (200, ProfilePhotoBody
            (Some \<lparr>public_id = ''recipe-app/new'', url = ''https://img.example/new.jpg''\<rparr>)
            ''Profile photo updated successfully'') \<and>
   effects (snd (PUT_users_profile_photo services profile_request kitchen)) =
     [CloudinaryUpload ''recipe-app/profiles'' (file_buffer jpeg),
      CloudinaryDestroy ''recipe-app/profiles/alice'', UserSave (user_id alice)]"
proof -
  let ?res = "\<lparr>result_public_id = ''recipe-app/new'',
               secure_url = ''https://img.example/new.jpg''\<rparr>"
  have a: "protect services kitchen profile_request = Inr (select_minus_password alice)"
    and a': "protect services_upload_fails kitchen profile_request =
               Inr (select_minus_password alice)"
    by code_simp+
  have e: "req_file profile_request = Some jpeg"
    by code_simp
  have ko: "upload_stream services_upload_fails ''recipe-app/profiles'' (file_buffer jpeg) =
              Inl ''Request Timeout''"
    by code_simp
  have up: "upload_stream services ''recipe-app/profiles'' (file_buffer jpeg) = Inr ?res"
    by code_simp
  have rel_ok: "\<forall>old. profilePhoto (select_minus_password alice) = Some old \<and>
      public_id old \<noteq> [] \<longrightarrow> destroy services (public_id old) = None"
    by (simp add: services_def)
  have rel: "old_profile_release (select_minus_password alice) =
      [CloudinaryDestroy ''recipe-app/profiles/alice'']"
    and eff: "effects kitchen = []"
    and uid: "user_id (select_minus_password alice) = user_id alice"
    and stored: "User_findById kitchen (user_id alice) = Some alice"
    and res: "result_public_id ?res = ''recipe-app/new''"
      "secure_url ?res = ''https://img.example/new.jpg''"
    by code_simp+
  note failing = C10_profile_photo_upload_first [OF a' e, THEN conjunct2, THEN conjunct1,
      rule_format, OF ko]
  note working = C10_profile_photo_upload_first [OF a e, THEN conjunct2, THEN conjunct2,
      rule_format, OF conjI [OF up rel_ok]]
  from failing working a e ko rel eff uid stored res show ?thesis by simp
qed

subsection \<open>Favorites\<close>

text \<open>
  C6. For an authenticated user and an existing recipe that is not among the user's
  favorites: the first request to add it answers 200 with \<open>isFavorited\<close> true and stores
  the recipe as the last favorite; the same request again answers 400 "Recipe already in
  favorites" and leaves the world as the first request left it; and a request to remove the
  recipe, made while it is not a favorite, answers 400 "Recipe not in favorites" and leaves
  the world as it was.
\<close>

theorem C6_favorite_toggle_guarded:
  assumes auth: "protect ext w req = Inr u"
    and valid: "ObjectId_isValid ext (params_id req)"
    and found: "Recipe_findById w (params_id req) = Some r"
    and absent: "params_id req \<notin> set (favorites u)"
  shows "fst (POST_favorite ext req w) =
           Inr (200, FavoriteStatus ''Recipe added to favorites'' True) \<and>
         map_option favorites (User_findById (snd (POST_favorite ext req w)) (user_id u)) =
           Some (favorites u @ [params_id req]) \<and>
         POST_favorite ext req (snd (POST_favorite ext req w)) =
           (Inl (Failure 400 ''Recipe already in favorites''), snd (POST_favorite ext req w)) \<and>
         DELETE_favorite ext req w = (Inl (Failure 400 ''Recipe not in favorites''), w)"
proof -
  from protect_user [OF auth] obtain usr
    where usr: "User_findById w (user_id u) = Some usr" and u: "u = select_minus_password usr"
    by blast
  have uid: "user_id usr = user_id u" and fav: "favorites usr = favorites u"
    using u by (simp_all add: select_minus_password_def)
  have rid: "recipe_id r = params_id req"
    using found by (rule Recipe_findById_id)
  let ?usr' = "usr\<lparr>favorites := favorites usr @ [recipe_id r]\<rparr>"
  let ?w1 = "User_save ?usr' w"
  have first: "POST_favorite ext req w =
      (Inr (200, FavoriteStatus ''Recipe added to favorites'' True), ?w1)"
    using auth valid found usr absent rid fav
    by (simp add: POST_favorite_def protected_authenticated addFavorite_def)
  have auth1: "protect ext ?w1 req = Inr (select_minus_password ?usr')"
    using auth by (rule protect_after_save) (simp add: uid)
  have usr1: "User_findById ?w1 (user_id u) = Some ?usr'"
    using usr by (rule User_findById_save) (simp add: uid)
  have second: "POST_favorite ext req ?w1 =
      (Inl (Failure 400 ''Recipe already in favorites''), ?w1)"
    using auth1 valid found usr1 rid uid
    by (simp add: POST_favorite_def protected_authenticated addFavorite_def
        select_minus_password_def)
  have removal: "DELETE_favorite ext req w = (Inl (Failure 400 ''Recipe not in favorites''), w)"
    using auth valid found usr absent rid fav
    by (simp add: DELETE_favorite_def protected_authenticated removeFavorite_def)
  show ?thesis
    using first second removal usr1 rid fav by simp
qed

text \<open>Bob, who has no favorites yet, adds the soup twice; before that he tries to remove
  it.\<close>

theorem C6_favorite_toggle_witness:
  "protect services kitchen favorite_request = Inr (select_minus_password bob) \<and>
   Recipe_findById kitchen (params_id favorite_request) = Some soup \<and>
   favorites (select_minus_password bob) = [] \<and>
   fst (POST_favorite services favorite_request kitchen) =
     Inr (200, FavoriteStatus ''Recipe added to favorites'' True) \<and>
   map_option favorites
     (User_findById (snd (POST_favorite services favorite_request kitchen)) (user_id bob)) =
     Some [recipe_id soup] \<and>
   POST_favorite services favorite_request (snd (POST_favorite services favorite_request kitchen)) =
     (Inl (Failure 400 ''Recipe already in favorites''),
      snd (POST_favorite services favorite_request kitchen)) \<and>
   DELETE_favorite services favorite_request kitchen =
     (Inl (Failure 400 ''Recipe not in favorites''), kitchen)"
proof -
  have a: "protect services kitchen favorite_request = Inr (select_minus_password bob)"
    by code_simp
  have b: "ObjectId_isValid services (params_id favorite_request)"
    by code_simp
  have c: "Recipe_findById kitchen (params_id favorite_request) = Some soup"
    by code_simp
  have d: "params_id favorite_request \<notin> set (favorites (select_minus_password bob))"
    by code_simp
  have f: "favorites (select_minus_password bob) = []"
    and uid: "user_id (select_minus_password bob) = user_id bob"
    and rid: "params_id favorite_request = recipe_id soup"
    by code_simp+
  from C6_favorite_toggle_guarded [OF a b c d] a c f uid rid show ?thesis by simp
qed

subsection \<open>Reviews and replies\<close>

lemma reviews_id_push:
  "reviews_id rvs i = Some rv \<Longrightarrow>
   reviews_id (replies_push i rp rvs) i = Some (rv\<lparr>replies := replies rv @ [rp]\<rparr>)"
  by (induction rvs) (auto simp: reviews_id_def split: if_splits)

lemma replies_push_users [simp]:
  "map review_user (replies_push i rp rvs) = map review_user rvs"
  by (induction rvs) auto

text \<open>
  C7. For an authenticated user and an existing recipe: a rating that is falsy, below 1 or
  above 10 is answered with 400 "Rating must be between 1 and 10"; in particular every
  number outside the range from 1 to 10 is. A description that is empty after trimming is
  answered with 400 as well (with the message of the rating when the rating is rejected
  first, "Description is required" otherwise). Nothing is stored in either case. A
  numeric rating from 1 to 10, with a description that is not blank, from a user who has
  not reviewed the recipe, is answered with 201 and stored as the last review.
\<close>

theorem C7_rating_and_description_validation:
  assumes auth: "protect ext w req = Inr u"
    and valid: "ObjectId_isValid ext (params_id req)"
    and found: "Recipe_findById w (params_id req) = Some r"
  shows "(falsy (body_rating req) \<or>
          js_lt (ToNumber (StringToNumber ext) (body_rating req)) (Fin 1) \<or>
          js_lt (Fin 10) (ToNumber (StringToNumber ext) (body_rating req)) \<longrightarrow>
            POST_reviews ext req w = (Inl (Failure 400 ''Rating must be between 1 and 10''), w)) \<and>
         (\<forall>q. body_rating req = Number (Fin q) \<and> (q < 1 \<or> 10 < q) \<longrightarrow>
            POST_reviews ext req w = (Inl (Failure 400 ''Rating must be between 1 and 10''), w)) \<and>
         (\<forall>d. body_description req = String d \<and> trim d = [] \<longrightarrow>
            POST_reviews ext req w =
              (Inl (Failure 400
                 (if falsy (body_rating req) \<or>
                     js_lt (ToNumber (StringToNumber ext) (body_rating req)) (Fin 1) \<or>
                     js_lt (Fin 10) (ToNumber (StringToNumber ext) (body_rating req))
                  then ''Rating must be between 1 and 10''
                  else ''Description is required'')), w)) \<and>
         (\<forall>q d. body_rating req = Number (Fin q) \<and> 1 \<le> q \<and> q \<le> 10 \<and>
            body_description req = String d \<and> trim d \<noteq> [] \<and>
            \<not> list_ex (\<lambda>review. review_user review = user_id u) (reviews r) \<longrightarrow>
            (\<exists>b. fst (POST_reviews ext req w) = Inr (201, b)) \<and>
            map_option reviews (Recipe_findById (snd (POST_reviews ext req w)) (params_id req)) =
              Some (reviews r @
                [\<lparr>review_id = newObjectId ext, rating = Fin q, review_description = d,
                  review_user = user_id u, replies = []\<rparr>]))"
proof -
  have rid: "recipe_id r = params_id req"
    using found by (rule Recipe_findById_id)
  have route: "POST_reviews ext req w = addReview ext u req w"
    using auth by (simp add: POST_reviews_def protected_authenticated)
  have saved: "\<And>r2. recipe_id r2 = params_id req \<Longrightarrow>
      Recipe_findById (Recipe_save r2 w) (params_id req) = Some r2"
    using found by (rule Recipe_findById_save)
  show ?thesis
    unfolding route
    using valid found rid
    by (auto simp: addReview_def Let_def saved split: jsvalue.splits)
qed

text \<open>Bob reviews the soup with the ratings 1, 10, 0 and 11, and once with a blank
  description.\<close>

theorem C7_rating_boundaries_witness:
  "protect services kitchen (review_request 1 ''tasty'') = Inr (select_minus_password bob) \<and>
   Recipe_findById kitchen (params_id (review_request 1 ''tasty'')) = Some soup \<and>
   (\<exists>b. fst (POST_reviews services (review_request 1 ''tasty'') kitchen) = Inr (201, b)) \<and>
   (\<exists>b. fst (POST_reviews services (review_request 10 ''tasty'') kitchen) = Inr (201, b)) \<and>
   POST_reviews services (review_request 0 ''tasty'') kitchen =
     (Inl (Failure 400 ''Rating must be between 1 and 10''), kitchen) \<and>
   POST_reviews services (review_request 11 ''tasty'') kitchen =
     (Inl (Failure 400 ''Rating must be between 1 and 10''), kitchen) \<and>
   POST_reviews services (review_request 5 [CHR '' '', CHR 0x09]) kitchen =
     (Inl (Failure 400 ''Description is required''), kitchen)"
proof -
  have a: "protect services kitchen (review_request q d) = Inr (select_minus_password bob)"
    and b: "ObjectId_isValid services (params_id (review_request q d))"
    and c: "Recipe_findById kitchen (params_id (review_request q d)) = Some soup"
    and rt: "body_rating (review_request q d) = Number (Fin q)"
    and ds: "body_description (review_request q d) = String d"
    for q d
    by (simp_all add: review_request_def as_bob_def soup_request_def protect_def services_def
        startsWith_def at_index_def User_findById_def Recipe_findById_def kitchen_def
        alice_def bob_def soup_def)
  have fresh: "\<not> list_ex (\<lambda>review. review_user review = user_id (select_minus_password bob))
                 (reviews soup)"
    by code_simp
  have tasty: "trim ''tasty'' \<noteq> []" and blank: "trim [CHR '' '', CHR 0x09] = []"
    by (simp_all add: trim_def isWhiteSpace_def)
  note T = C7_rating_and_description_validation [OF a b c]
  have one: "\<exists>b. fst (POST_reviews services (review_request 1 ''tasty'') kitchen) = Inr (201, b)"
    using T [of 1 "''tasty''", THEN conjunct2, THEN conjunct2, THEN conjunct2, rule_format,
        of 1 "''tasty''"] rt ds fresh tasty by simp
  have ten: "\<exists>b. fst (POST_reviews services (review_request 10 ''tasty'') kitchen) = Inr (201, b)"
    using T [of 10 "''tasty''", THEN conjunct2, THEN conjunct2, THEN conjunct2, rule_format,
        of 10 "''tasty''"] rt ds fresh tasty by simp
  have zero: "POST_reviews services (review_request 0 ''tasty'') kitchen =
     (Inl (Failure 400 ''Rating must be between 1 and 10''), kitchen)"
    using T [of 0 "''tasty''", THEN conjunct2, THEN conjunct1, rule_format, of 0] rt by simp
  have eleven: "POST_reviews services (review_request 11 ''tasty'') kitchen =
     (Inl (Failure 400 ''Rating must be between 1 and 10''), kitchen)"
    using T [of 11 "''tasty''", THEN conjunct2, THEN conjunct1, rule_format, of 11] rt by simp
  have empty: "POST_reviews services (review_request 5 [CHR '' '', CHR 0x09]) kitchen =
     (Inl (Failure 400 ''Description is required''), kitchen)"
    using T [of 5 "[CHR '' '', CHR 0x09]", THEN conjunct2, THEN conjunct2, THEN conjunct1,
        rule_format, of "[CHR '' '', CHR 0x09]"] rt ds blank by simp
  from a c one ten zero eleven empty show ?thesis by simp
qed

text \<open>
  C9. For an authenticated user, an existing recipe and a description that is a string and
  not blank: when the review is accepted (valid rating, no earlier review by the user), the
  stored review holds the description exactly as submitted; and when the reply is accepted
  (the review exists), so does the stored reply. \<open>trim\<close> is applied in the test only.
\<close>

theorem C9_description_stored_verbatim:
  assumes auth: "protect ext w req = Inr u"
    and valid: "ObjectId_isValid ext (params_id req)"
    and found: "Recipe_findById w (params_id req) = Some r"
    and desc: "body_description req = String d"
    and nonblank: "trim d \<noteq> []"
  shows "(\<not> falsy (body_rating req) \<and>
          \<not> js_lt (ToNumber (StringToNumber ext) (body_rating req)) (Fin 1) \<and>
          \<not> js_lt (Fin 10) (ToNumber (StringToNumber ext) (body_rating req)) \<and>
          \<not> list_ex (\<lambda>review. review_user review = user_id u) (reviews r) \<longrightarrow>
            (\<exists>b. fst (POST_reviews ext req w) = Inr (201, b)) \<and>
            map_option reviews (Recipe_findById (snd (POST_reviews ext req w)) (params_id req)) =
              Some (reviews r @
                [\<lparr>review_id = newObjectId ext,
                  rating = ToNumber (StringToNumber ext) (body_rating req),
                  review_description = d, review_user = user_id u, replies = []\<rparr>])) \<and>
         (\<forall>rv. ObjectId_isValid ext (params_reviewId req) \<and>
            reviews_id (reviews r) (params_reviewId req) = Some rv \<longrightarrow>
            (\<exists>b. fst (POST_replies ext req w) = Inr (201, b)) \<and>
            (\<exists>r'. Recipe_findById (snd (POST_replies ext req w)) (params_id req) = Some r' \<and>
               map_option replies (reviews_id (reviews r') (params_reviewId req)) =
               Some (replies rv @
                 [\<lparr>reply_id = newObjectId ext, reply_description = d,
                   reply_user = user_id u\<rparr>])))"
proof -
  have rid: "recipe_id r = params_id req"
    using found by (rule Recipe_findById_id)
  have review: "POST_reviews ext req w = addReview ext u req w"
    and reply: "POST_replies ext req w = addReply ext u req w"
    using auth by (simp_all add: POST_reviews_def POST_replies_def protected_authenticated)
  have saved: "\<And>r2. recipe_id r2 = params_id req \<Longrightarrow>
      Recipe_findById (Recipe_save r2 w) (params_id req) = Some r2"
    using found by (rule Recipe_findById_save)
  have nonempty: "d \<noteq> []"
    using nonblank by (auto simp: trim_def)
  show ?thesis
    unfolding review reply
    using valid found rid desc nonblank nonempty
    by (auto simp: addReview_def addReply_def Let_def saved reviews_id_push)
qed

text \<open>Bob reviews the soup, and Alice replies to his review, each with spaces around the
  text.\<close>

theorem C9_description_verbatim_witness:
  "trim ''  good  '' = ''good'' \<and> trim ''  thanks  '' = ''thanks'' \<and>
   protect services kitchen (review_request 9 ''  good  '') = Inr (select_minus_password bob) \<and>
   protect services kitchen_reviewed (reply_request ''  thanks  '') =
     Inr (select_minus_password alice) \<and>
   (\<exists>b. fst (POST_reviews services (review_request 9 ''  good  '') kitchen) = Inr (201, b)) \<and>
   map_option reviews
     (Recipe_findById (snd (POST_reviews services (review_request 9 ''  good  '') kitchen))
        (params_id (review_request 9 ''  good  ''))) =
     Some [\<lparr>review_id = newObjectId services, rating = Fin 9,
            review_description = ''  good  '', review_user = user_id bob, replies = []\<rparr>] \<and>
   (\<exists>b. fst (POST_replies services (reply_request ''  thanks  '') kitchen_reviewed) =
      Inr (201, b)) \<and>
   (\<exists>r'. Recipe_findById (snd (POST_replies services (reply_request ''  thanks  '')
                                 kitchen_reviewed))
            (params_id (reply_request ''  thanks  '')) = Some r' \<and>
      map_option replies (reviews_id (reviews r') (params_reviewId (reply_request ''  thanks  ''))) =
      Some [\<lparr>reply_id = newObjectId services, reply_description = ''  thanks  '',
             reply_user = user_id alice\<rparr>])"
proof -
  let ?review = "review_request 9 ''  good  ''"
  let ?reply = "reply_request ''  thanks  ''"
  have good: "trim ''  good  '' = ''good''" and thanks: "trim ''  thanks  '' = ''thanks''"
    by (simp_all add: trim_def isWhiteSpace_def)
  have good': "trim ''  good  '' \<noteq> []" and thanks': "trim ''  thanks  '' \<noteq> []"
    by (simp_all add: good thanks)
  have a: "protect services kitchen ?review = Inr (select_minus_password bob)"
    and a': "protect services kitchen_reviewed ?reply = Inr (select_minus_password alice)"
    by code_simp+
  have b: "ObjectId_isValid services (params_id ?review)"
    and b': "ObjectId_isValid services (params_id ?reply)"
    by code_simp+
  have c: "Recipe_findById kitchen (params_id ?review) = Some soup"
    and c': "Recipe_findById kitchen_reviewed (params_id ?reply) = Some soup_reviewed"
    by code_simp+
  have d: "body_description ?review = String ''  good  ''"
    and d': "body_description ?reply = String ''  thanks  ''"
    by code_simp+
  have accepted: "\<not> falsy (body_rating ?review) \<and>
      \<not> js_lt (ToNumber (StringToNumber services) (body_rating ?review)) (Fin 1) \<and>
      \<not> js_lt (Fin 10) (ToNumber (StringToNumber services) (body_rating ?review)) \<and>
      \<not> list_ex (\<lambda>review. review_user review = user_id (select_minus_password bob))
          (reviews soup)"
    by (simp add: review_request_def as_bob_def soup_request_def soup_def)
  have there: "ObjectId_isValid services (params_reviewId ?reply) \<and>
      reviews_id (reviews soup_reviewed) (params_reviewId ?reply) = Some bobs_review"
    by code_simp
  have vals: "ToNumber (StringToNumber services) (body_rating ?review) = Fin 9"
    "reviews soup = []" "replies bobs_review = []"
    "user_id (select_minus_password bob) = user_id bob"
    "user_id (select_minus_password alice) = user_id alice"
    by (simp_all add: review_request_def as_bob_def soup_request_def soup_def bobs_review_def
        select_minus_password_def)
  note reviewing = C9_description_stored_verbatim [OF a b c d good', THEN conjunct1,
      rule_format, OF accepted]
  note replying = C9_description_stored_verbatim [OF a' b' c' d' thanks', THEN conjunct2,
      rule_format, OF there]
  from reviewing replying good thanks a a' vals show ?thesis by simp
qed

subsection \<open>One review per user and recipe\<close>

lemma unique_reviewers_effects [simp]:
  "unique_reviewers (w\<lparr>effects := e\<rparr>) = unique_reviewers w"
  by (simp add: unique_reviewers_def)

lemma unique_reviewers_same_recipes:
  "recipes w' = recipes w \<Longrightarrow> unique_reviewers w \<Longrightarrow> unique_reviewers w'"
  by (simp add: unique_reviewers_def)

lemma unique_reviewers_found:
  "unique_reviewers w \<Longrightarrow> Recipe_findById w i = Some r \<Longrightarrow>
   distinct (map review_user (reviews r))"
  by (auto simp: unique_reviewers_def list_all_iff dest: Recipe_findById_mem)

lemma unique_reviewers_save:
  "unique_reviewers w \<Longrightarrow> distinct (map review_user (reviews r)) \<Longrightarrow>
   unique_reviewers (Recipe_save r w)"
  by (auto simp: unique_reviewers_def Recipe_save_def list_all_iff)

lemma unique_reviewers_create:
  "unique_reviewers w \<Longrightarrow> reviews r = [] \<Longrightarrow> unique_reviewers (Recipe_create r w)"
  by (auto simp: unique_reviewers_def Recipe_create_def)

lemma unique_reviewers_deleteOne:
  "unique_reviewers w \<Longrightarrow> unique_reviewers (Recipe_deleteOne r w)"
  by (auto simp: unique_reviewers_def Recipe_deleteOne_def list_all_iff)

lemma unique_reviewers_User_save [simp]:
  "unique_reviewers (User_save u w) = unique_reviewers w"
  by (simp add: unique_reviewers_def User_save_def)

lemma protected_unique:
  assumes "unique_reviewers w" and "\<And>u. unique_reviewers (snd (handler u req w))"
  shows "unique_reviewers (snd (protected ext handler req w))"
  using assms by (simp add: protected_def split: sum.splits)

lemma updateProfilePhoto_recipes:
  "recipes (snd (updateProfilePhoto ext u req w)) = recipes w"
  unfolding updateProfilePhoto_def cloudinary_upload_def cloudinary_destroy_def
    User_findByIdAndUpdate_profilePhoto_def User_save_def
  by (simp split: option.split sum.split)

lemma updateProfilePhoto_unique:
  "unique_reviewers w \<Longrightarrow> unique_reviewers (snd (updateProfilePhoto ext u req w))"
  by (rule unique_reviewers_same_recipes [OF updateProfilePhoto_recipes])

lemma createRecipe_unique:
  "unique_reviewers w \<Longrightarrow> unique_reviewers (snd (createRecipe ext u req w))"
  unfolding createRecipe_def cloudinary_upload_def
  by (simp add: Let_def unique_reviewers_create split: option.split sum.split)

lemma updateRecipe_unique:
  assumes inv: "unique_reviewers w"
  shows "unique_reviewers (snd (updateRecipe ext u req w))"
proof (cases "Recipe_findById w (params_id req)")
  case None
  with inv show ?thesis by (simp add: updateRecipe_def)
next
  case (Some r)
  have d: "distinct (map review_user (reviews r))"
    using inv Some by (rule unique_reviewers_found)
  from updateRecipe_world [OF Some, of ext u]
  have "recipes (snd (updateRecipe ext u req w)) = recipes w \<or>
        (\<exists>r2 w1. recipes w1 = recipes w \<and> recipe_id r2 = recipe_id r \<and>
           createdBy r2 = createdBy r \<and> reviews r2 = reviews r \<and>
           snd (updateRecipe ext u req w) = Recipe_save r2 w1)"
    by simp
  then show ?thesis
  proof
    assume "recipes (snd (updateRecipe ext u req w)) = recipes w"
    then show ?thesis using inv by (rule unique_reviewers_same_recipes)
  next
    assume "\<exists>r2 w1. recipes w1 = recipes w \<and> recipe_id r2 = recipe_id r \<and>
           createdBy r2 = createdBy r \<and> reviews r2 = reviews r \<and>
           snd (updateRecipe ext u req w) = Recipe_save r2 w1"
    then obtain r2 w1 where w1: "recipes w1 = recipes w" and rv: "reviews r2 = reviews r"
      and w': "snd (updateRecipe ext u req w) = Recipe_save r2 w1"
      by blast
    from w1 inv have "unique_reviewers w1" by (rule unique_reviewers_same_recipes)
    moreover from d rv have "distinct (map review_user (reviews r2))" by simp
    ultimately show ?thesis unfolding w' by (rule unique_reviewers_save)
  qed
qed

lemma deleteRecipe_unique:
  "unique_reviewers w \<Longrightarrow> unique_reviewers (snd (deleteRecipe ext u req w))"
  unfolding deleteRecipe_def cloudinary_destroy_def
  by (simp add: unique_reviewers_deleteOne split: option.split)

text \<open>A review request either leaves the world alone or saves the found recipe with one
  more review, by the requesting user, who had none there.\<close>

lemma addReview_world:
  assumes "Recipe_findById w (params_id req) = Some r"
  shows "snd (addReview ext u req w) = w \<or>
         (\<not> list_ex (\<lambda>review. review_user review = user_id u) (reviews r) \<and>
          (\<exists>rv. review_user rv = user_id u \<and>
             snd (addReview ext u req w) = Recipe_save (r\<lparr>reviews := reviews r @ [rv]\<rparr>) w))"
proof (cases "body_description req")
  case (String d)
  let ?rv = "\<lparr>review_id = newObjectId ext,
              rating = ToNumber (StringToNumber ext) (body_rating req),
              review_description = d, review_user = user_id u, replies = []\<rparr>"
  have "snd (addReview ext u req w) = w \<or>
        (\<not> list_ex (\<lambda>review. review_user review = user_id u) (reviews r) \<and>
         snd (addReview ext u req w) = Recipe_save (r\<lparr>reviews := reviews r @ [?rv]\<rparr>) w)"
    using assms String by (simp add: addReview_def Let_def split: option.splits)
  moreover have "review_user ?rv = user_id u" by simp
  ultimately show ?thesis by blast
qed (use assms in \<open>simp_all add: addReview_def\<close>)

lemma addReview_unique:
  assumes inv: "unique_reviewers w"
  shows "unique_reviewers (snd (addReview ext u req w))"
proof (cases "Recipe_findById w (params_id req)")
  case None
  with inv show ?thesis by (simp add: addReview_def)
next
  case (Some r)
  have d: "distinct (map review_user (reviews r))"
    using inv Some by (rule unique_reviewers_found)
  from addReview_world [OF Some, of ext u] show ?thesis
  proof
    assume "snd (addReview ext u req w) = w"
    with inv show ?thesis by simp
  next
    assume "\<not> list_ex (\<lambda>review. review_user review = user_id u) (reviews r) \<and>
          (\<exists>rv. review_user rv = user_id u \<and>
             snd (addReview ext u req w) = Recipe_save (r\<lparr>reviews := reviews r @ [rv]\<rparr>) w)"
    then obtain rv where new: "\<forall>x\<in>set (reviews r). review_user x \<noteq> user_id u"
      and rv: "review_user rv = user_id u"
      and w': "snd (addReview ext u req w) = Recipe_save (r\<lparr>reviews := reviews r @ [rv]\<rparr>) w"
      by (auto simp: list_ex_iff)
    have "distinct (map review_user (reviews (r\<lparr>reviews := reviews r @ [rv]\<rparr>)))"
      using d new rv by auto
    with inv show ?thesis unfolding w' by (rule unique_reviewers_save)
  qed
qed

lemma addReply_world:
  assumes "Recipe_findById w (params_id req) = Some r"
  shows "snd (addReply ext u req w) = w \<or>
         (\<exists>rp. snd (addReply ext u req w) =
            Recipe_save (r\<lparr>reviews := replies_push (params_reviewId req) rp (reviews r)\<rparr>) w)"
proof (cases "body_description req")
  case (String d)
  let ?rp = "\<lparr>reply_id = newObjectId ext, reply_description = d, reply_user = user_id u\<rparr>"
  have "snd (addReply ext u req w) = w \<or>
        snd (addReply ext u req w) =
          Recipe_save (r\<lparr>reviews := replies_push (params_reviewId req) ?rp (reviews r)\<rparr>) w"
    using assms String by (simp add: addReply_def Let_def split: option.splits)
  then show ?thesis by blast
qed (use assms in \<open>simp_all add: addReply_def split: option.splits\<close>)

lemma addReply_unique:
  assumes inv: "unique_reviewers w"
  shows "unique_reviewers (snd (addReply ext u req w))"
proof (cases "Recipe_findById w (params_id req)")
  case None
  with inv show ?thesis by (simp add: addReply_def)
next
  case (Some r)
  have d: "distinct (map review_user (reviews r))"
    using inv Some by (rule unique_reviewers_found)
  from addReply_world [OF Some, of ext u] show ?thesis
  proof
    assume "snd (addReply ext u req w) = w"
    with inv show ?thesis by simp
  next
    assume "\<exists>rp. snd (addReply ext u req w) =
            Recipe_save (r\<lparr>reviews := replies_push (params_reviewId req) rp (reviews r)\<rparr>) w"
    then obtain rp where w': "snd (addReply ext u req w) =
            Recipe_save (r\<lparr>reviews := replies_push (params_reviewId req) rp (reviews r)\<rparr>) w"
      by blast
    have "distinct (map review_user
            (reviews (r\<lparr>reviews := replies_push (params_reviewId req) rp (reviews r)\<rparr>)))"
      using d by simp
    with inv show ?thesis unfolding w' by (rule unique_reviewers_save)
  qed
qed

lemma addFavorite_unique:
  "unique_reviewers w \<Longrightarrow> unique_reviewers (snd (addFavorite ext u req w))"
  unfolding addFavorite_def by (simp split: option.split)

lemma removeFavorite_unique:
  "unique_reviewers w \<Longrightarrow> unique_reviewers (snd (removeFavorite ext u req w))"
  unfolding removeFavorite_def by (simp split: option.split)

text \<open>Every route keeps the reviewers of every stored recipe distinct.\<close>

lemma router_unique_reviewers:
  assumes inv: "unique_reviewers w"
  shows "unique_reviewers (snd (router ext rt req w))"
proof (cases rt)
  case PutProfilePhoto
  show ?thesis unfolding PutProfilePhoto router.simps PUT_users_profile_photo_def
    using inv by (intro protected_unique updateProfilePhoto_unique)
next
  case PostRecipe
  show ?thesis unfolding PostRecipe router.simps POST_recipes_def
    using inv by (intro protected_unique createRecipe_unique)
next
  case GetRecipes
  with inv show ?thesis
    by (simp add: GET_recipes_def getRecipes_def Let_def split: option.splits)
next
  case GetRecipe
  with inv show ?thesis
    by (simp add: GET_recipe_def getRecipe_def split: option.splits)
next
  case PutRecipe
  show ?thesis unfolding PutRecipe router.simps PUT_recipe_def
    using inv by (intro protected_unique updateRecipe_unique)
next
  case DeleteRecipe
  show ?thesis unfolding DeleteRecipe router.simps DELETE_recipe_def
    using inv by (intro protected_unique deleteRecipe_unique)
next
  case PostReview
  show ?thesis unfolding PostReview router.simps POST_reviews_def
    using inv by (intro protected_unique addReview_unique)
next
  case PostReply
  show ?thesis unfolding PostReply router.simps POST_replies_def
    using inv by (intro protected_unique addReply_unique)
next
  case PostFavorite
  show ?thesis unfolding PostFavorite router.simps POST_favorite_def
    using inv by (intro protected_unique addFavorite_unique)
next
  case DeleteFavorite
  show ?thesis unfolding DeleteFavorite router.simps DELETE_favorite_def
    using inv by (intro protected_unique removeFavorite_unique)
qed

text \<open>
  C4. No route ever makes a stored recipe hold two reviews by one user. When an
  authenticated user already has a review on an existing recipe, every further review
  request by that user fails and leaves the world as it was; whatever rating and
  description it carries, provided they pass the validation that precedes the scan of the
  reviews, the failure is 400 "You have already reviewed this recipe". A request that does
  not pass validation fails there, as it would without the earlier review: 400 "Rating
  must be between 1 and 10", 400 "Description is required", or the TypeError of
  \<open>description.trim\<close> on a description that is neither falsy nor a string.
\<close>

theorem C4_duplicate_review_rejected:
  assumes auth: "protect ext w req = Inr u"
    and valid: "ObjectId_isValid ext (params_id req)"
    and found: "Recipe_findById w (params_id req) = Some r"
    and reviewed: "list_ex (\<lambda>review. review_user review = user_id u) (reviews r)"
  shows "(\<exists>err. POST_reviews ext req w = (Inl err, w)) \<and>
         (\<forall>d. \<not> falsy (body_rating req) \<and>
            \<not> js_lt (ToNumber (StringToNumber ext) (body_rating req)) (Fin 1) \<and>
            \<not> js_lt (Fin 10) (ToNumber (StringToNumber ext) (body_rating req)) \<and>
            body_description req = String d \<and> trim d \<noteq> [] \<longrightarrow>
            POST_reviews ext req w =
              (Inl (Failure 400 ''You have already reviewed this recipe''), w)) \<and>
         (falsy (body_rating req) \<or>
          js_lt (ToNumber (StringToNumber ext) (body_rating req)) (Fin 1) \<or>
          js_lt (Fin 10) (ToNumber (StringToNumber ext) (body_rating req)) \<longrightarrow>
            POST_reviews ext req w =
              (Inl (Failure 400 ''Rating must be between 1 and 10''), w)) \<and>
         (\<not> falsy (body_rating req) \<and>
          \<not> js_lt (ToNumber (StringToNumber ext) (body_rating req)) (Fin 1) \<and>
          \<not> js_lt (Fin 10) (ToNumber (StringToNumber ext) (body_rating req)) \<and>
          (falsy (body_description req) \<or>
           (\<exists>d. body_description req = String d \<and> trim d = [])) \<longrightarrow>
            POST_reviews ext req w = (Inl (Failure 400 ''Description is required''), w)) \<and>
         (\<not> falsy (body_rating req) \<and>
          \<not> js_lt (ToNumber (StringToNumber ext) (body_rating req)) (Fin 1) \<and>
          \<not> js_lt (Fin 10) (ToNumber (StringToNumber ext) (body_rating req)) \<and>
          \<not> falsy (body_description req) \<and> (\<forall>d. body_description req \<noteq> String d) \<longrightarrow>
            POST_reviews ext req w =
              (Inl (Failure 200 ''description.trim is not a function''), w)) \<and>
         (\<forall>rt rq. unique_reviewers w \<longrightarrow> unique_reviewers (snd (router ext rt rq w)))"
proof -
  have route: "POST_reviews ext req w = addReview ext u req w"
    using auth by (simp add: POST_reviews_def protected_authenticated)
  have "\<exists>err. addReview ext u req w = (Inl err, w)"
    using valid found reviewed
    by (auto simp: addReview_def split: jsvalue.splits)
  moreover have "\<forall>d. \<not> falsy (body_rating req) \<and>
            \<not> js_lt (ToNumber (StringToNumber ext) (body_rating req)) (Fin 1) \<and>
            \<not> js_lt (Fin 10) (ToNumber (StringToNumber ext) (body_rating req)) \<and>
            body_description req = String d \<and> trim d \<noteq> [] \<longrightarrow>
            addReview ext u req w =
              (Inl (Failure 400 ''You have already reviewed this recipe''), w)"
    using valid found reviewed
    by (auto simp: addReview_def trim_def)
  moreover have "falsy (body_rating req) \<or>
          js_lt (ToNumber (StringToNumber ext) (body_rating req)) (Fin 1) \<or>
          js_lt (Fin 10) (ToNumber (StringToNumber ext) (body_rating req)) \<longrightarrow>
            addReview ext u req w =
              (Inl (Failure 400 ''Rating must be between 1 and 10''), w)"
    using valid found by (auto simp: addReview_def)
  moreover have "\<not> falsy (body_rating req) \<and>
          \<not> js_lt (ToNumber (StringToNumber ext) (body_rating req)) (Fin 1) \<and>
          \<not> js_lt (Fin 10) (ToNumber (StringToNumber ext) (body_rating req)) \<and>
          (falsy (body_description req) \<or>
           (\<exists>d. body_description req = String d \<and> trim d = [])) \<longrightarrow>
            addReview ext u req w = (Inl (Failure 400 ''Description is required''), w)"
    using valid found by (auto simp: addReview_def)
  moreover have "\<not> falsy (body_rating req) \<and>
          \<not> js_lt (ToNumber (StringToNumber ext) (body_rating req)) (Fin 1) \<and>
          \<not> js_lt (Fin 10) (ToNumber (StringToNumber ext) (body_rating req)) \<and>
          \<not> falsy (body_description req) \<and> (\<forall>d. body_description req \<noteq> String d) \<longrightarrow>
            addReview ext u req w =
              (Inl (Failure 200 ''description.trim is not a function''), w)"
    using valid found by (cases "body_description req") (simp_all add: addReview_def)
  ultimately show ?thesis
    unfolding route by (simp add: router_unique_reviewers)
qed

text \<open>Bob, whose review of the soup (rating 8, "warming") is stored, sends two more, each
  with another valid rating and description.\<close>

theorem C4_duplicate_review_witness:
  "protect services kitchen_reviewed (review_request 7 ''again'') =
     Inr (select_minus_password bob) \<and>
   Recipe_findById kitchen_reviewed (params_id (review_request 7 ''again'')) =
     Some soup_reviewed \<and>
   list_ex (\<lambda>review. review_user review = user_id (select_minus_password bob))
     (reviews soup_reviewed) \<and>
   POST_reviews services (review_request 7 ''again'') kitchen_reviewed =
     (Inl (Failure 400 ''You have already reviewed this recipe''), kitchen_reviewed) \<and>
   POST_reviews services (review_request 1 ''too salty'') kitchen_reviewed =
     (Inl (Failure 400 ''You have already reviewed this recipe''), kitchen_reviewed) \<and>
   unique_reviewers kitchen_reviewed \<and>
   unique_reviewers
     (snd (router services PostReview (review_request 7 ''again'') kitchen_reviewed))"
proof -
  have a: "protect services kitchen_reviewed (review_request q d) =
             Inr (select_minus_password bob)"
    and b: "ObjectId_isValid services (params_id (review_request q d))"
    and c: "Recipe_findById kitchen_reviewed (params_id (review_request q d)) =
             Some soup_reviewed"
    and rt: "body_rating (review_request q d) = Number (Fin q)"
    and ds: "body_description (review_request q d) = String d"
    for q d
    by (simp_all add: review_request_def as_bob_def soup_request_def protect_def services_def
        startsWith_def at_index_def User_findById_def Recipe_findById_def kitchen_reviewed_def
        kitchen_def alice_def bob_def soup_reviewed_def soup_def)
  have d: "list_ex (\<lambda>review. review_user review = user_id (select_minus_password bob))
             (reviews soup_reviewed)"
    by code_simp
  have words: "trim ''again'' \<noteq> []" "trim ''too salty'' \<noteq> []"
    by (simp_all add: trim_def isWhiteSpace_def)
  have inv: "unique_reviewers kitchen_reviewed"
    by code_simp
  note T = C4_duplicate_review_rejected [OF a b c d]
  have seven: "POST_reviews services (review_request 7 ''again'') kitchen_reviewed =
     (Inl (Failure 400 ''You have already reviewed this recipe''), kitchen_reviewed)"
    using T [of 7 "''again''", THEN conjunct2, THEN conjunct1, rule_format, of "''again''"]
      rt ds words by simp
  have one: "POST_reviews services (review_request 1 ''too salty'') kitchen_reviewed =
     (Inl (Failure 400 ''You have already reviewed this recipe''), kitchen_reviewed)"
    using T [of 1 "''too salty''", THEN conjunct2, THEN conjunct1, rule_format,
        of "''too salty''"] rt ds words by simp
  have kept: "unique_reviewers
     (snd (router services PostReview (review_request 7 ''again'') kitchen_reviewed))"
    using T [of 7 "''again''", THEN conjunct2, THEN conjunct2, THEN conjunct2, THEN conjunct2,
        THEN conjunct2, rule_format, OF inv, of PostReview "review_request 7 ''again''"] .
  from seven one kept a c d inv show ?thesis by simp
qed

subsection \<open>The favorite flag of the two public reads\<close>

text \<open>What the two handlers do with \<open>req.user\<close>: without one the answer has no
  \<open>isFavorited\<close>; with one that is stored, every recipe of the answer carries
  \<open>isFavorited\<close>, true exactly for the recipes among that user's favorites.\<close>

lemma getRecipes_without_viewer:
  "\<exists>xs. getRecipes None req w = (Inr (200, RecipeList xs), w) \<and>
     map snd xs = replicate (length xs) None"
  by (simp add: getRecipes_def Let_def comp_def map_replicate_const)

lemma getRecipes_with_viewer:
  "User_findById w (user_id ru) = Some usr \<Longrightarrow>
   \<exists>xs. getRecipes (Some ru) req w = (Inr (200, RecipeList xs), w) \<and>
     map snd xs = map (\<lambda>x. Some (recipe_id (fst x) \<in> set (favorites usr))) xs"
  by (simp add: getRecipes_def Let_def comp_def)

lemma getRecipe_without_viewer:
  assumes "getRecipe ext None req w = (Inr (status, RecipeDetail recipe fav), w')"
  shows "fav = None"
proof (cases "Recipe_findById w (params_id req)")
  case None
  with assms show ?thesis by (simp add: getRecipe_def split: if_splits)
next
  case (Some r)
  with assms show ?thesis by (simp add: getRecipe_def split: if_splits)
qed

lemma getRecipe_with_viewer:
  assumes "User_findById w (user_id ru) = Some usr"
    and "getRecipe ext (Some ru) req w = (Inr (status, RecipeDetail recipe fav), w')"
  shows "fav = Some (recipe_id recipe \<in> set (favorites usr))"
proof (cases "Recipe_findById w (params_id req)")
  case None
  with assms show ?thesis by (simp add: getRecipe_def split: if_splits)
next
  case (Some r)
  with assms show ?thesis
    by (auto simp: getRecipe_def populate_all_def list_ex_iff split: if_splits)
qed

text \<open>The routes, however, never pass a user to these handlers: whatever the request
  carries, the answer of \<open>GET /\<close> and of \<open>GET /:id\<close> has no \<open>isFavorited\<close>.\<close>

lemma GET_recipes_without_isFavorited:
  "\<exists>xs. GET_recipes ext req w = (Inr (200, RecipeList xs), w) \<and>
     map snd xs = replicate (length xs) None"
  unfolding GET_recipes_def by (rule getRecipes_without_viewer)

lemma GET_recipe_without_isFavorited:
  "GET_recipe ext req w = (Inr (status, RecipeDetail recipe fav), w') \<Longrightarrow> fav = None"
  unfolding GET_recipe_def by (rule getRecipe_without_viewer)

text \<open>
  C2, on the code. Alice has the soup among her favorites and sends her valid bearer token
  (\<open>protect\<close> would accept it and resolve her) with \<open>GET /\<close> and with \<open>GET /:id\<close>. Both
  routes answer 200 without an \<open>isFavorited\<close> field, where the claim has \<open>isFavorited\<close>
  true. The handler of \<open>GET /\<close>, given Alice as \<open>req.user\<close>, does answer with
  \<open>isFavorited\<close> true: the routes lack the middleware that would set \<open>req.user\<close>.
\<close>

theorem C2_bearer_token_gets_no_isFavorited:
  "protect services kitchen_with_favorite (as_alice soup_request) =
     Inr (select_minus_password alice_with_favorite) \<and>
   favorites alice_with_favorite = [recipe_id soup] \<and>
   GET_recipes services (as_alice soup_request) kitchen_with_favorite =
     (Inr (200, RecipeList [(populate_createdBy kitchen_with_favorite soup, None)]),
      kitchen_with_favorite) \<and>
   GET_recipe services (as_alice soup_request) kitchen_with_favorite =
     (Inr (200, RecipeDetail (populate_all kitchen_with_favorite soup) None),
      kitchen_with_favorite) \<and>
   getRecipes (Some (select_minus_password alice_with_favorite)) (as_alice soup_request)
       kitchen_with_favorite =
     (Inr (200, RecipeList [(populate_createdBy kitchen_with_favorite soup, Some True)]),
      kitchen_with_favorite) \<and>
   getRecipe services (Some (select_minus_password alice_with_favorite))
       (as_alice soup_request) kitchen_with_favorite =
     (Inr (200, RecipeDetail (populate_all kitchen_with_favorite soup) (Some True)),
      kitchen_with_favorite)"
  by code_simp

end
